theory Spec2Isabelle
  imports Main "HOL-Library.Word"
begin

section \<open>Values shared by the encryption adapter and the contract client\<close>

text \<open>
  A \<^verbatim>\<open>Uint8Array\<close> is a list of bytes. A thrown JavaScript value is an \<open>error\<close>; an
  operation that may throw returns \<open>error + 'a\<close>, with \<open>Inl\<close> for the thrown value.
\<close>

type_synonym bytes = "8 word list"

datatype error = Error string | TypeError string

text \<open>
  The source computes with the JavaScript type \<^verbatim>\<open>number\<close>, an IEEE 754 double. Only
  integer-valued numbers occur in the functions modelled here, so a number is an integer,
  or \<open>None\<close> for a value that is not finite (an infinity or NaN). The exact result of an
  operation is rounded to the nearest double, ties to the even significand: \<open>fl\<close> keeps
  the 53 leading bits of an integer, and overflows to a non-finite value from \<open>2 ^ 1024\<close> on.
\<close>

type_synonym jsnum = "int option"

function bitlen :: "int \<Rightarrow> nat" where
  "bitlen n = (if n \<le> 0 then 0 else Suc (bitlen (n div 2)))"
  by pat_completeness auto
termination
  by (relation "measure nat") auto

declare bitlen.simps [simp del]

definition fl :: "int \<Rightarrow> jsnum" where
  "fl n =
     (let a = \<bar>n\<bar> in
      if a < 2 ^ 53 then Some n
      else
        let e = bitlen a - 53;
            q = a div 2 ^ e;
            r = a mod 2 ^ e;
            h = 2 ^ (e - 1);
            q' = (if h < r \<or> (r = h \<and> odd q) then q + 1 else q);
            m = q' * 2 ^ e
        in if 2 ^ 1024 \<le> m then None else Some (sgn n * m))"

text \<open>The operators \<^verbatim>\<open>*\<close> and \<^verbatim>\<open>+\<close> on numbers.\<close>

definition js_mul :: "jsnum \<Rightarrow> jsnum \<Rightarrow> jsnum" where
  "js_mul x y = (case (x, y) of (Some a, Some b) \<Rightarrow> fl (a * b) | _ \<Rightarrow> None)"

definition js_add :: "jsnum \<Rightarrow> jsnum \<Rightarrow> jsnum" where
  "js_add x y = (case (x, y) of (Some a, Some b) \<Rightarrow> fl (a + b) | _ \<Rightarrow> None)"

text \<open>
  The operator \<^verbatim>\<open>%\<close> with a finite divisor: the remainder has the sign of the dividend
  and is exact; a non-finite dividend or a zero divisor gives NaN.
\<close>

definition js_rem :: "jsnum \<Rightarrow> int \<Rightarrow> jsnum" where
  "js_rem x m = (case x of None \<Rightarrow> None
       | Some a \<Rightarrow> if m = 0 then None else Some (sgn a * (\<bar>a\<bar> mod \<bar>m\<bar>)))"

text \<open>
  Storing a number into a \<^verbatim>\<open>Uint8Array\<close> element converts it with ToUint8: a
  non-finite value becomes 0, an integer is reduced modulo 256.
\<close>

definition to_uint8 :: "jsnum \<Rightarrow> 8 word" where
  "to_uint8 x = (case x of None \<Rightarrow> 0 | Some a \<Rightarrow> word_of_int a)"

text \<open>\<^verbatim>\<open>Number(b)\<close> of a non-negative \<^verbatim>\<open>bigint\<close>, as ethers returns for a \<^verbatim>\<open>uint256\<close>.\<close>

definition js_Number :: "nat \<Rightarrow> jsnum" where
  "js_Number b = fl (int b)"

section \<open>The encryption adapter: \<^verbatim>\<open>src/lib/fhevm.ts\<close>\<close>

subsection \<open>Simulated encryption\<close>

text \<open>
  The object \<^verbatim>\<open>{ data, proof }\<close> that \<^verbatim>\<open>encrypt32\<close> returns. The simulated path always
  fills \<open>data\<close>; on the backend path \<open>data\<close> is whatever property the backend's value
  has, so it may be \<^verbatim>\<open>undefined\<close> (\<open>None\<close>).
\<close>

record ciphertext =
  data :: "bytes option"
  proof' :: bytes

text \<open>
  The loop of \<^verbatim>\<open>simulateEncryption\<close>, for \<open>i\<close> from 0 below 32:
  \<^verbatim>\<open>data[i] = (value * 7 + i * 13) % 256; proof[i] = (value * 11 + i * 17) % 256;\<close>
  The string \<^verbatim>\<open>seed\<close> that the source also computes is never used.
\<close>

function simulate_loop :: "int \<Rightarrow> nat \<Rightarrow> bytes \<Rightarrow> bytes \<Rightarrow> bytes \<times> bytes" where
  "simulate_loop v i dat pr =
     (if i < 32 then
        simulate_loop v (i + 1)
          (dat[i := to_uint8 (js_rem (js_add (js_mul (Some v) (Some 7)) (js_mul (Some (int i)) (Some 13))) 256)])
          (pr[i := to_uint8 (js_rem (js_add (js_mul (Some v) (Some 11)) (js_mul (Some (int i)) (Some 17))) 256)])
      else (dat, pr))"
  by pat_completeness auto
termination
  by (relation "measure (\<lambda>(v, i, dat, pr). 32 - i)") auto

declare simulate_loop.simps [simp del]

definition simulateEncryption :: "int \<Rightarrow> ciphertext" where
  "simulateEncryption v =
     (let dat = replicate 32 0;
          pr = replicate 32 0;
          (dat', pr') = simulate_loop v 0 dat pr
      in \<lparr>data = Some dat', proof' = pr'\<rparr>)"

subsection \<open>The byte and hex codec\<close>

definition hexDigit :: "nat \<Rightarrow> char" where
  "hexDigit d = ''0123456789abcdef'' ! d"

text \<open>\<^verbatim>\<open>n.toString(16)\<close> for a non-negative integer.\<close>

function toString16 :: "nat \<Rightarrow> string" where
  "toString16 n = (if n < 16 then [hexDigit n] else toString16 (n div 16) @ [hexDigit (n mod 16)])"
  by pat_completeness auto
termination
  by (relation "measure id") auto

declare toString16.simps [simp del]

text \<open>\<^verbatim>\<open>s.padStart(n, c)\<close> with a one-character filler.\<close>

definition padStart :: "nat \<Rightarrow> char \<Rightarrow> string \<Rightarrow> string" where
  "padStart n c s = replicate (n - length s) c @ s"

definition toHexString :: "bytes \<Rightarrow> string" where
  "toHexString bs =
     ''0x'' @ concat (map (\<lambda>byte. padStart 2 (CHR ''0'') (toString16 (unat byte))) bs)"

definition createExternalInput :: "bytes \<Rightarrow> string" where
  "createExternalInput encryptedData = toHexString encryptedData"

text \<open>
  \<^verbatim>\<open>parseInt(s, 16)\<close>: leading white space is skipped, then an optional sign, then an
  optional \<^verbatim>\<open>0x\<close> or \<^verbatim>\<open>0X\<close>; the longest run of hexadecimal digits that follows is the
  value, and NaN results when that run is empty. Strings are lists of 8-bit characters,
  so the white space of JavaScript is its part below code 256.
\<close>

definition isStrWhiteSpace :: "char \<Rightarrow> bool" where
  "isStrWhiteSpace c \<longleftrightarrow>
     c \<in> set [CHR 0x09, CHR 0x0A, CHR 0x0B, CHR 0x0C, CHR 0x0D, CHR 0x20, CHR 0xA0]"

definition hexValue :: "char \<Rightarrow> int option" where
  "hexValue c =
     (let k = (of_char c :: nat) in
      if 48 \<le> k \<and> k \<le> 57 then Some (int k - 48)
      else if 97 \<le> k \<and> k \<le> 102 then Some (int k - 87)
      else if 65 \<le> k \<and> k \<le> 70 then Some (int k - 55)
      else None)"

definition parseInt16 :: "string \<Rightarrow> jsnum" where
  "parseInt16 s =
     (let s1 = dropWhile isStrWhiteSpace s;
          sgn_rest = (case s1 of
                        [] \<Rightarrow> (1, [])
                      | c # r \<Rightarrow> if c = CHR ''-'' then (- 1, r)
                                 else if c = CHR ''+'' then (1, r) else (1, s1));
          s2 = snd sgn_rest;
          s3 = (if take 2 s2 = ''0x'' \<or> take 2 s2 = ''0X'' then drop 2 s2 else s2);
          ds = takeWhile (\<lambda>c. hexValue c \<noteq> None) s3
      in if ds = [] then None
         else fl (fst sgn_rest
                  * foldl (\<lambda>a c. a * 16 + (case hexValue c of Some d \<Rightarrow> d | None \<Rightarrow> 0)) 0 ds))"

definition startsWith :: "string \<Rightarrow> string \<Rightarrow> bool" where
  "startsWith s p \<longleftrightarrow> take (length p) s = p"

definition substr :: "string \<Rightarrow> nat \<Rightarrow> nat \<Rightarrow> string" where
  "substr s i n = take n (drop i s)"

text \<open>
  The loop of \<^verbatim>\<open>fromHexString\<close>:
  \<^verbatim>\<open>for (let i = 0; i < cleanHex.length; i += 2) bytes[i / 2] = parseInt(cleanHex.substr(i, 2), 16);\<close>
  The array has \<^verbatim>\<open>cleanHex.length / 2\<close> elements, truncated to an integer, so for a
  string of odd length the last write is out of range; a typed array ignores such a
  write, as \<open>bs[k := x]\<close> does.
\<close>

function fromHex_loop :: "string \<Rightarrow> nat \<Rightarrow> bytes \<Rightarrow> bytes" where
  "fromHex_loop cleanHex i bs =
     (if i < length cleanHex then
        fromHex_loop cleanHex (i + 2) (bs[i div 2 := to_uint8 (parseInt16 (substr cleanHex i 2))])
      else bs)"
  by pat_completeness auto
termination
  by (relation "measure (\<lambda>(cleanHex, i, bs). length cleanHex - i)") auto

declare fromHex_loop.simps [simp del]

definition fromHexString :: "string \<Rightarrow> bytes" where
  "fromHexString hex =
     (let cleanHex = (if startsWith hex ''0x'' then drop 2 hex else hex);
          bs = replicate (length cleanHex div 2) 0
      in fromHex_loop cleanHex 0 bs)"

subsection \<open>The outside world of the adapter and of the contract client\<close>

text \<open>
  Every call that leaves the program is recorded as an event, in order. The answer of a
  remote service may depend on everything that happened before, so each handle below
  answers from the trace of events so far and the arguments. Logging to the console is
  not modelled.
\<close>

datatype event =
    BackendEncrypt32 int
  | RandomBytes nat
  | GetAddress
  | IsAuthorizedVoter string
  | IsAdmin string
  | ProposalCount
  | HasVoted nat string
  | GetActiveProposals
  | CreateProposal string string "string list" int
  | CastVote int int string string
  | RevealResults int
  | AuthorizeVoter string
  | AuthorizeVoters "string list"
  | TxWait string

text \<open>
  What \<^verbatim>\<open>instance.encrypt32(value)\<close> of the backend library gives back: \<^verbatim>\<open>undefined\<close> or
  \<^verbatim>\<open>null\<close>, or a value whose properties \<^verbatim>\<open>data\<close> and \<^verbatim>\<open>proof\<close> are byte arrays or absent.
\<close>

datatype backend_value = Undefined | Encrypted "bytes option" "bytes option"

record fhevm_instance =
  inst_encrypt32 :: "event list \<Rightarrow> int \<Rightarrow> error + backend_value"

record network =
  chainId :: nat
  network_name :: string

record BrowserProvider =
  getNetwork :: "error + network"

record FHEVMClient =
  instance' :: "fhevm_instance option"
  provider :: "BrowserProvider option"
  isReady :: bool
  publicKey :: "string option"

text \<open>The handles of ethers: a sent transaction, the contract and the signer.\<close>

record receipt =
  status :: int

record tx =
  hash :: string
  wait :: "error + receipt"

record raw_proposal =
  raw_id :: nat
  raw_title :: string
  raw_description :: string
  raw_options :: "string list"
  raw_startTime :: nat
  raw_endTime :: nat
  raw_totalVotes :: nat
  raw_creator :: string
  raw_active :: bool
  raw_resultsRevealed :: bool
  raw_revealedResults :: "nat list"

record contract_handle =
  c_isAuthorizedVoter :: "event list \<Rightarrow> string \<Rightarrow> error + bool"
  c_isAdmin :: "event list \<Rightarrow> string \<Rightarrow> error + bool"
  c_proposalCount :: "event list \<Rightarrow> error + nat"
  c_hasVoted :: "event list \<Rightarrow> nat \<Rightarrow> string \<Rightarrow> error + bool"
  c_getActiveProposals :: "event list \<Rightarrow> error + raw_proposal list"
  c_createProposal :: "event list \<Rightarrow> string \<Rightarrow> string \<Rightarrow> string list \<Rightarrow> int \<Rightarrow> error + tx"
  c_castVote :: "event list \<Rightarrow> int \<Rightarrow> int \<Rightarrow> string \<Rightarrow> string \<Rightarrow> error + tx"
  c_revealResults :: "event list \<Rightarrow> int \<Rightarrow> error + tx"
  c_authorizeVoter :: "event list \<Rightarrow> string \<Rightarrow> error + tx"
  c_authorizeVoters :: "event list \<Rightarrow> string list \<Rightarrow> error + tx"

record signer_handle =
  getAddress :: "event list \<Rightarrow> error + string"

text \<open>
  The fields of class \<^verbatim>\<open>VotingContract\<close> that its methods read. The field
  \<^verbatim>\<open>provider\<close> of that class is only used while connecting.
\<close>

record VotingContract =
  contract :: "contract_handle option"
  signer :: "signer_handle option"
  isFHEVMEnabled :: bool

text \<open>
  The two module-level singletons \<^verbatim>\<open>fhevmClient\<close> and \<^verbatim>\<open>votingContract\<close>, and the
  trace. A method takes the world and returns its outcome with the world it leaves.
\<close>

record world =
  fhevmClient :: FHEVMClient
  votingContract :: VotingContract
  trace :: "event list"

definition emit :: "world \<Rightarrow> event \<Rightarrow> world" where
  "emit w ev = w\<lparr>trace := trace w @ [ev]\<rparr>"

text \<open>
  What the program takes from its surroundings: the answer of the gateway to
  \<^verbatim>\<open>fetch\<close>, the dynamic import of the backend library with its \<^verbatim>\<open>createInstance\<close>, the
  configured access-control address, and \<^verbatim>\<open>randomBytes\<close> and \<^verbatim>\<open>hexlify\<close> of ethers.
\<close>

datatype key_json = KeyJson "string option" "string option"

record response =
  ok :: bool
  json :: "error + key_json option"

record instance_config =
  cfg_chainId :: nat
  cfg_publicKey :: string
  cfg_gatewayUrl :: string
  cfg_aclAddress :: string

record env =
  fetch :: "error + response"
  importFhevmjs :: "error + (instance_config \<Rightarrow> error + fhevm_instance)"
  aclAddress :: string
  randomBytes :: "event list \<Rightarrow> nat \<Rightarrow> bytes"
  hexlify :: "bytes \<Rightarrow> string"

subsection \<open>Initialisation\<close>

text \<open>The operator \<^verbatim>\<open>||\<close> on strings that may be absent: the empty string is falsy.\<close>

definition js_or :: "string option \<Rightarrow> string option \<Rightarrow> string option" where
  "js_or a b = (case a of None \<Rightarrow> b | Some s \<Rightarrow> if s = [] then b else Some s)"

definition set_publicKey :: "world \<Rightarrow> string option \<Rightarrow> world" where
  "set_publicKey w k = w\<lparr>fhevmClient := (fhevmClient w)\<lparr>publicKey := k\<rparr>\<rparr>"

definition set_isReady :: "world \<Rightarrow> bool \<Rightarrow> world" where
  "set_isReady w b = w\<lparr>fhevmClient := (fhevmClient w)\<lparr>isReady := b\<rparr>\<rparr>"

text \<open>
  \<^verbatim>\<open>fetchPublicKey\<close>: the body of its \<^verbatim>\<open>try\<close> first, then the method with its \<^verbatim>\<open>catch\<close>,
  which sets the key to \<^verbatim>\<open>null\<close>.
\<close>

definition fetchPublicKey_try :: "env \<Rightarrow> world \<Rightarrow> (error + unit) \<times> world" where
  "fetchPublicKey_try env w =
     (case fetch env of
        Inl e \<Rightarrow> (Inl e, w)
      | Inr resp \<Rightarrow>
          if ok resp then
            (case json resp of
               Inl e \<Rightarrow> (Inl e, w)
             | Inr None \<Rightarrow> (Inl (TypeError ''Cannot read properties of null''), w)
             | Inr (Some (KeyJson k1 k2)) \<Rightarrow> (Inr (), set_publicKey w (js_or k1 k2)))
          else (Inr (), set_publicKey w None))"

definition fetchPublicKey :: "env \<Rightarrow> world \<Rightarrow> (error + unit) \<times> world" where
  "fetchPublicKey env w =
     (case fetchPublicKey_try env w of
        (Inl e, w1) \<Rightarrow> (Inr (), set_publicKey w1 None)
      | (Inr u, w1) \<Rightarrow> (Inr u, w1))"

definition getDefaultPublicKey :: string where
  "getDefaultPublicKey = ''0x'' @ replicate 64 (CHR ''0'')"

text \<open>The argument of \<^verbatim>\<open>createInstance\<close>.\<close>

definition instanceConfig :: "env \<Rightarrow> world \<Rightarrow> instance_config" where
  "instanceConfig env w =
     \<lparr>cfg_chainId = 11155111,
      cfg_publicKey = (case js_or (publicKey (fhevmClient w)) None of
                         Some k \<Rightarrow> k | None \<Rightarrow> getDefaultPublicKey),
      cfg_gatewayUrl = ''https://gateway.sepolia.zama.ai'',
      cfg_aclAddress = aclAddress env\<rparr>"

text \<open>The inner \<^verbatim>\<open>try\<close> of \<^verbatim>\<open>init\<close>: import the library, create the instance, set the flag.\<close>

definition init_fhevmjs :: "env \<Rightarrow> world \<Rightarrow> (error + unit) \<times> world" where
  "init_fhevmjs env w =
     (case importFhevmjs env of
        Inl e \<Rightarrow> (Inl e, w)
      | Inr createInstance \<Rightarrow>
          (case createInstance (instanceConfig env w) of
             Inl e \<Rightarrow> (Inl e, w)
           | Inr inst \<Rightarrow>
               (Inr (), w\<lparr>fhevmClient := (fhevmClient w)\<lparr>instance' := Some inst, isReady := True\<rparr>\<rparr>)))"

text \<open>
  The outer \<^verbatim>\<open>try\<close> of \<^verbatim>\<open>init\<close>. A chain identity other than 11155111 only writes a
  debug message, so both branches of that test leave the same world.
\<close>

definition init_try :: "env \<Rightarrow> world \<Rightarrow> BrowserProvider \<Rightarrow> (error + unit) \<times> world" where
  "init_try env w prov =
     (case getNetwork prov of
        Inl e \<Rightarrow> (Inl e, w)
      | Inr net \<Rightarrow>
          (let w0 = (if chainId net \<noteq> 11155111 then w else w) in
           case fetchPublicKey env w0 of
             (Inl e, w1) \<Rightarrow> (Inl e, w1)
           | (Inr u, w1) \<Rightarrow>
               (case init_fhevmjs env w1 of
                  (Inl fhevmError, w2) \<Rightarrow> (Inr (), set_isReady w2 False)
                | (Inr u', w2) \<Rightarrow> (Inr (), w2))))"

definition init :: "env \<Rightarrow> world \<Rightarrow> BrowserProvider \<Rightarrow> (error + unit) \<times> world" where
  "init env w prov =
     (let w0 = w\<lparr>fhevmClient := (fhevmClient w)\<lparr>provider := Some prov\<rparr>\<rparr> in
      case init_try env w0 prov of
        (Inl e, w1) \<Rightarrow> (Inl e, set_isReady w1 False)
      | (Inr u, w1) \<Rightarrow> (Inr u, w1))"

subsection \<open>Encryption\<close>

definition isInitialized :: "world \<Rightarrow> bool" where
  "isInitialized w \<longleftrightarrow> isReady (fhevmClient w) \<and> instance' (fhevmClient w) \<noteq> None"

text \<open>
  The \<^verbatim>\<open>try\<close> of \<^verbatim>\<open>encrypt32\<close>: the backend is called; reading a property of
  \<^verbatim>\<open>undefined\<close> throws; an absent \<^verbatim>\<open>proof\<close> is replaced by an empty array.
\<close>

definition encrypt32_try :: "world \<Rightarrow> fhevm_instance \<Rightarrow> int \<Rightarrow> (error + ciphertext) \<times> world" where
  "encrypt32_try w inst v =
     (let w1 = emit w (BackendEncrypt32 v) in
      case inst_encrypt32 inst (trace w) v of
        Inl e \<Rightarrow> (Inl e, w1)
      | Inr Undefined \<Rightarrow> (Inl (TypeError ''Cannot read properties of undefined''), w1)
      | Inr (Encrypted d p) \<Rightarrow>
          (Inr \<lparr>data = d, proof' = (case p of Some b \<Rightarrow> b | None \<Rightarrow> [])\<rparr>, w1))"

definition encrypt32 :: "world \<Rightarrow> int \<Rightarrow> (error + ciphertext) \<times> world" where
  "encrypt32 w v =
     (case instance' (fhevmClient w) of
        None \<Rightarrow> (Inr (simulateEncryption v), w)
      | Some inst \<Rightarrow>
          if \<not> isReady (fhevmClient w) then (Inr (simulateEncryption v), w)
          else
            (case encrypt32_try w inst v of
               (Inl e, w1) \<Rightarrow> (Inr (simulateEncryption v), w1)
             | (Inr c, w1) \<Rightarrow> (Inr c, w1)))"

definition InvalidChoice :: error where
  "InvalidChoice = Error ''Vote must be 0 or 1''"

record ballot =
  encryptedVote :: "bytes option"
  voteProof :: bytes

definition encryptVote :: "world \<Rightarrow> int \<Rightarrow> (error + ballot) \<times> world" where
  "encryptVote w vote =
     (if vote \<noteq> 0 \<and> vote \<noteq> 1 then (Inl InvalidChoice, w)
      else
        (case encrypt32 w vote of
           (Inl e, w1) \<Rightarrow> (Inl e, w1)
         | (Inr encrypted, w1) \<Rightarrow>
             (Inr \<lparr>encryptedVote = data encrypted, voteProof = proof' encrypted\<rparr>, w1)))"

section \<open>The contract client: \<^verbatim>\<open>src/lib/contract.ts\<close>\<close>

record UserProfile =
  address :: string
  isAuthorized :: bool
  isAdmin :: bool
  votedProposals :: "nat list"

record Proposal =
  proposal_id :: jsnum
  title :: string
  description :: string
  options :: "string list"
  startTime :: jsnum
  endTime :: jsnum
  totalVotes :: jsnum
  creator :: string
  active :: bool
  resultsRevealed :: bool
  revealedResults :: "jsnum list"
  hasVoted :: bool

subsection \<open>Profile resolution\<close>

text \<open>
  The scan of \<^verbatim>\<open>getUserProfile\<close>, \<^verbatim>\<open>for (let i = 0; i < proposalCount; i++)\<close>, with the
  \<^verbatim>\<open>try\<close> and \<^verbatim>\<open>catch\<close> around each \<^verbatim>\<open>hasVoted(i, address)\<close>. The counter \<open>i\<close> is a
  number and \<^verbatim>\<open>i++\<close> adds 1 as numbers are added, with rounding; the count is a
  \<^verbatim>\<open>bigint\<close>, and the comparison of the two is exact. A scan that never ends has no
  result: the value \<open>None\<close>.
\<close>

partial_function (option) profile_loop ::
  "contract_handle \<Rightarrow> string \<Rightarrow> nat \<Rightarrow> jsnum \<Rightarrow> nat list \<Rightarrow> world \<Rightarrow> (nat list \<times> world) option"
where
  "profile_loop c addr proposalCount i voted w =
     (case i of
        None \<Rightarrow> Some (voted, w)
      | Some k \<Rightarrow>
          if k < int proposalCount then
            (let w1 = emit w (HasVoted (nat k) addr);
                 voted' = (case c_hasVoted c (trace w) (nat k) addr of
                             Inl e \<Rightarrow> voted
                           | Inr b \<Rightarrow> if b then voted @ [nat k] else voted)
             in profile_loop c addr proposalCount (js_add (Some k) (Some 1)) voted' w1)
          else Some (voted, w))"

text \<open>
  The \<^verbatim>\<open>try\<close> of \<^verbatim>\<open>getUserProfile\<close>. Both calls inside \<^verbatim>\<open>Promise.all\<close> are issued before
  either answer is awaited. The method has no result when its scan has none.
\<close>

definition getUserProfile_try ::
  "contract_handle \<Rightarrow> signer_handle \<Rightarrow> world \<Rightarrow> ((error + UserProfile option) \<times> world) option"
where
  "getUserProfile_try c s w =
     (let w1 = emit w GetAddress in
      case getAddress s (trace w) of
        Inl e \<Rightarrow> Some (Inl e, w1)
      | Inr addr \<Rightarrow>
          (let r1 = c_isAuthorizedVoter c (trace w1) addr;
               w2 = emit w1 (IsAuthorizedVoter addr);
               r2 = c_isAdmin c (trace w2) addr;
               w3 = emit w2 (IsAdmin addr)
           in case r1 of
                Inl e \<Rightarrow> Some (Inl e, w3)
              | Inr authorized \<Rightarrow>
                  (case r2 of
                     Inl e \<Rightarrow> Some (Inl e, w3)
                   | Inr admin \<Rightarrow>
                       (let w4 = emit w3 ProposalCount in
                        case c_proposalCount c (trace w3) of
                          Inl e \<Rightarrow> Some (Inl e, w4)
                        | Inr proposalCount \<Rightarrow>
                            (case profile_loop c addr proposalCount (Some 0) [] w4 of
                               None \<Rightarrow> None
                             | Some (voted, w5) \<Rightarrow>
                                 Some (Inr (Some \<lparr>address = addr, isAuthorized = authorized,
                                                  isAdmin = admin, votedProposals = voted\<rparr>),
                                       w5))))))"

definition getUserProfile :: "world \<Rightarrow> ((error + UserProfile option) \<times> world) option" where
  "getUserProfile w =
     (case (signer (votingContract w), contract (votingContract w)) of
        (Some s, Some c) \<Rightarrow>
          (case getUserProfile_try c s w of
             None \<Rightarrow> None
           | Some (Inl e, w1) \<Rightarrow> Some (Inr None, w1)
           | Some (Inr p, w1) \<Rightarrow> Some (Inr p, w1))
      | _ \<Rightarrow> Some (Inr None, w))"

subsection \<open>Reading the active proposals\<close>

text \<open>
  One round of the loop over \<^verbatim>\<open>proposalsData\<close>: the vote check in its own \<^verbatim>\<open>try\<close>, made
  only for a truthy \<^verbatim>\<open>userAddress\<close>, then the record that is pushed.
\<close>

definition toProposal :: "raw_proposal \<Rightarrow> bool \<Rightarrow> Proposal" where
  "toProposal proposalData voted =
     \<lparr>proposal_id = js_Number (raw_id proposalData),
      title = raw_title proposalData,
      description = raw_description proposalData,
      options = raw_options proposalData,
      startTime = js_mul (js_Number (raw_startTime proposalData)) (Some 1000),
      endTime = js_mul (js_Number (raw_endTime proposalData)) (Some 1000),
      totalVotes = js_Number (raw_totalVotes proposalData),
      creator = raw_creator proposalData,
      active = raw_active proposalData,
      resultsRevealed = raw_resultsRevealed proposalData,
      revealedResults = map js_Number (raw_revealedResults proposalData),
      hasVoted = voted\<rparr>"

fun proposals_loop ::
  "contract_handle \<Rightarrow> string option \<Rightarrow> raw_proposal list \<Rightarrow> Proposal list \<Rightarrow> world
     \<Rightarrow> Proposal list \<times> world" where
  "proposals_loop c userAddress [] proposals w = (proposals, w)"
| "proposals_loop c userAddress (proposalData # rest) proposals w =
     (let (voted, w1) =
            (case userAddress of
               None \<Rightarrow> (False, w)
             | Some a \<Rightarrow>
                 if a = [] then (False, w)
                 else
                   (case c_hasVoted c (trace w) (raw_id proposalData) a of
                      Inl e \<Rightarrow> (False, emit w (HasVoted (raw_id proposalData) a))
                    | Inr b \<Rightarrow> (b, emit w (HasVoted (raw_id proposalData) a))))
      in proposals_loop c userAddress rest (proposals @ [toProposal proposalData voted]) w1)"

definition getActiveProposals_try ::
  "contract_handle \<Rightarrow> world \<Rightarrow> (error + Proposal list) \<times> world" where
  "getActiveProposals_try c w =
     (let w1 = emit w GetActiveProposals in
      case c_getActiveProposals c (trace w) of
        Inl e \<Rightarrow> (Inl e, w1)
      | Inr proposalsData \<Rightarrow>
          (case signer (votingContract w) of
             None \<Rightarrow> (case proposals_loop c None proposalsData [] w1 of (ps, w2) \<Rightarrow> (Inr ps, w2))
           | Some s \<Rightarrow>
               (case getAddress s (trace w1) of
                  Inl e \<Rightarrow> (Inl e, emit w1 GetAddress)
                | Inr a \<Rightarrow>
                    (case proposals_loop c (Some a) proposalsData [] (emit w1 GetAddress) of
                       (ps, w2) \<Rightarrow> (Inr ps, w2)))))"

definition getActiveProposals :: "world \<Rightarrow> (error + Proposal list) \<times> world" where
  "getActiveProposals w =
     (case contract (votingContract w) of
        None \<Rightarrow> (Inr [], w)
      | Some c \<Rightarrow>
          (case getActiveProposals_try c w of
             (Inl e, w1) \<Rightarrow> (Inr [], w1)
           | (Inr ps, w1) \<Rightarrow> (Inr ps, w1)))"

subsection \<open>Writing to the ledger\<close>

text \<open>
  The end shared by all five write methods:
  \<^verbatim>\<open>const receipt = await tx.wait(); return receipt.status === 1;\<close>
\<close>

definition wait_status :: "tx \<Rightarrow> world \<Rightarrow> (error + bool) \<times> world" where
  "wait_status t w =
     (case wait t of
        Inl e \<Rightarrow> (Inl e, emit w (TxWait (hash t)))
      | Inr rc \<Rightarrow> (Inr (status rc = 1), emit w (TxWait (hash t))))"

text \<open>
  Each method returns \<^verbatim>\<open>false\<close> at once without a contract; otherwise its \<^verbatim>\<open>catch\<close>
  throws the caught error again, so an error of the \<^verbatim>\<open>try\<close> is the method's error.
\<close>

definition createProposal ::
  "world \<Rightarrow> string \<Rightarrow> string \<Rightarrow> string list \<Rightarrow> int \<Rightarrow> (error + bool) \<times> world" where
  "createProposal w ttl descr opts duration =
     (case contract (votingContract w) of
        None \<Rightarrow> (Inr False, w)
      | Some c \<Rightarrow>
          (case c_createProposal c (trace w) ttl descr opts duration of
             Inl e \<Rightarrow> (Inl e, emit w (CreateProposal ttl descr opts duration))
           | Inr t \<Rightarrow> wait_status t (emit w (CreateProposal ttl descr opts duration))))"

definition revealResults :: "world \<Rightarrow> int \<Rightarrow> (error + bool) \<times> world" where
  "revealResults w proposalId =
     (case contract (votingContract w) of
        None \<Rightarrow> (Inr False, w)
      | Some c \<Rightarrow>
          (case c_revealResults c (trace w) proposalId of
             Inl e \<Rightarrow> (Inl e, emit w (RevealResults proposalId))
           | Inr t \<Rightarrow> wait_status t (emit w (RevealResults proposalId))))"

definition authorizeVoter :: "world \<Rightarrow> string \<Rightarrow> (error + bool) \<times> world" where
  "authorizeVoter w voterAddress =
     (case contract (votingContract w) of
        None \<Rightarrow> (Inr False, w)
      | Some c \<Rightarrow>
          (case c_authorizeVoter c (trace w) voterAddress of
             Inl e \<Rightarrow> (Inl e, emit w (AuthorizeVoter voterAddress))
           | Inr t \<Rightarrow> wait_status t (emit w (AuthorizeVoter voterAddress))))"

definition authorizeVoters :: "world \<Rightarrow> string list \<Rightarrow> (error + bool) \<times> world" where
  "authorizeVoters w voterAddresses =
     (case contract (votingContract w) of
        None \<Rightarrow> (Inr False, w)
      | Some c \<Rightarrow>
          (case c_authorizeVoters c (trace w) voterAddresses of
             Inl e \<Rightarrow> (Inl e, emit w (AuthorizeVoters voterAddresses))
           | Inr t \<Rightarrow> wait_status t (emit w (AuthorizeVoters voterAddresses))))"

text \<open>
  The fallback of \<^verbatim>\<open>castVote\<close>, written twice in the source with the same text: two
  blocks of 32 random bytes, sent in hex.
\<close>

definition castVote_simulated ::
  "env \<Rightarrow> contract_handle \<Rightarrow> world \<Rightarrow> int \<Rightarrow> int \<Rightarrow> (error + tx) \<times> world" where
  "castVote_simulated env c w proposalId optionIndex =
     (let simulatedEncryption = randomBytes env (trace w) 32;
          w1 = emit w (RandomBytes 32);
          simulatedProof = randomBytes env (trace w1) 32;
          w2 = emit w1 (RandomBytes 32);
          a = hexlify env simulatedEncryption;
          b = hexlify env simulatedProof
      in (c_castVote c (trace w2) proposalId optionIndex a b,
          emit w2 (CastVote proposalId optionIndex a b)))"

text \<open>
  The inner \<^verbatim>\<open>try\<close> of \<^verbatim>\<open>castVote\<close>: encrypt the vote value 1, pack both parts in hex
  (\<^verbatim>\<open>Array.from(undefined)\<close> throws), and send.
\<close>

definition castVote_fhe ::
  "contract_handle \<Rightarrow> world \<Rightarrow> int \<Rightarrow> int \<Rightarrow> (error + tx) \<times> world" where
  "castVote_fhe c w proposalId optionIndex =
     (case encryptVote w 1 of
        (Inl e, w1) \<Rightarrow> (Inl e, w1)
      | (Inr b, w1) \<Rightarrow>
          (case encryptedVote b of
             None \<Rightarrow> (Inl (TypeError ''undefined is not iterable''), w1)
           | Some ev \<Rightarrow>
               (let encryptedVoteHex = createExternalInput ev;
                    proofHex = toHexString (voteProof b)
                in (c_castVote c (trace w1) proposalId optionIndex encryptedVoteHex proofHex,
                    emit w1 (CastVote proposalId optionIndex encryptedVoteHex proofHex)))))"

definition castVote_send ::
  "env \<Rightarrow> contract_handle \<Rightarrow> world \<Rightarrow> int \<Rightarrow> int \<Rightarrow> (error + tx) \<times> world" where
  "castVote_send env c w proposalId optionIndex =
     (if isFHEVMEnabled (votingContract w) \<and> isInitialized w then
        (case castVote_fhe c w proposalId optionIndex of
           (Inl fheError, w1) \<Rightarrow> castVote_simulated env c w1 proposalId optionIndex
         | (Inr t, w1) \<Rightarrow> (Inr t, w1))
      else castVote_simulated env c w proposalId optionIndex)"

definition castVote :: "env \<Rightarrow> world \<Rightarrow> int \<Rightarrow> int \<Rightarrow> (error + bool) \<times> world" where
  "castVote env w proposalId optionIndex =
     (case contract (votingContract w) of
        None \<Rightarrow> (Inr False, w)
      | Some c \<Rightarrow>
          (case castVote_send env c w proposalId optionIndex of
             (Inl e, w1) \<Rightarrow> (Inl e, w1)
           | (Inr t, w1) \<Rightarrow> wait_status t w1))"

section \<open>Auxiliary notions for the proofs\<close>

text \<open>The bytes that one round of the simulation loop writes at index \<open>i\<close>.\<close>

definition sim_data :: "int \<Rightarrow> nat \<Rightarrow> 8 word" where
  "sim_data v i =
     to_uint8 (js_rem (js_add (js_mul (Some v) (Some 7)) (js_mul (Some (int i)) (Some 13))) 256)"

definition sim_proof :: "int \<Rightarrow> nat \<Rightarrow> 8 word" where
  "sim_proof v i =
     to_uint8 (js_rem (js_add (js_mul (Some v) (Some 11)) (js_mul (Some (int i)) (Some 17))) 256)"

text \<open>The two characters that \<^verbatim>\<open>toHexString\<close> writes for one byte.\<close>

definition hex2 :: "8 word \<Rightarrow> string" where
  "hex2 byte = padStart 2 (CHR ''0'') (toString16 (unat byte))"

text \<open>
  What \<^verbatim>\<open>castVote\<close> may add to the trace for a proposal and an option: a backend call
  only with the value 1, a vote submission only for that proposal and that option.
\<close>

definition vote_event_ok :: "int \<Rightarrow> int \<Rightarrow> event \<Rightarrow> bool" where
  "vote_event_ok proposalId optionIndex ev =
     (case ev of
        BackendEncrypt32 v \<Rightarrow> v = 1
      | CastVote a b x y \<Rightarrow> a = proposalId \<and> b = optionIndex
      | _ \<Rightarrow> True)"

text \<open>
  The trace of \<^verbatim>\<open>getUserProfile\<close> when its scan reaches proposal \<open>i\<close>, from the trace
  \<open>base\<close> at the start of the scan, and whether the vote check made then answers
  \<^verbatim>\<open>true\<close>.
\<close>

definition scan_trace :: "event list \<Rightarrow> string \<Rightarrow> nat \<Rightarrow> event list" where
  "scan_trace base a i = base @ map (\<lambda>j. HasVoted j a) [0..<i]"

definition voted_in_scan :: "contract_handle \<Rightarrow> event list \<Rightarrow> string \<Rightarrow> nat \<Rightarrow> bool" where
  "voted_in_scan c base a i \<longleftrightarrow> c_hasVoted c (scan_trace base a i) i a = Inr True"

definition profile_base :: "world \<Rightarrow> string \<Rightarrow> event list" where
  "profile_base w a = trace w @ [GetAddress, IsAuthorizedVoter a, IsAdmin a, ProposalCount]"

text \<open>A later world that differs from an earlier one only by such events at the end of the trace.\<close>

definition vote_extends :: "int \<Rightarrow> int \<Rightarrow> world \<Rightarrow> world \<Rightarrow> bool" where
  "vote_extends proposalId optionIndex w w' \<longleftrightarrow>
     (\<exists>evs. w' = w\<lparr>trace := trace w @ evs\<rparr> \<and> list_all (vote_event_ok proposalId optionIndex) evs)"

section \<open>Concrete worlds\<close>

text \<open>
  Handles and worlds on which the theorems below are instantiated: a ledger on which
  every call succeeds except the vote check of proposal 1, a ledger whose first vote
  submission fails, a ledger whose transactions are confirmed with status 0, a ledger that
  counts more than \<open>2 ^ 53\<close> proposals, a backend that answers and one that throws, and
  gateways that answer the key request with an error status or an unusable body.
\<close>

definition ex_tx :: tx where
  "ex_tx = \<lparr>hash = ''0xabc'', wait = Inr \<lparr>status = 1\<rparr>\<rparr>"

fun isCastVote :: "event \<Rightarrow> bool" where
  "isCastVote (CastVote a b x y) = True"
| "isCastVote ev = False"

definition ex_raw :: raw_proposal where
  "ex_raw = \<lparr>raw_id = 0, raw_title = ''Budget'', raw_description = ''Approve the budget'',
     raw_options = [''yes'', ''no''], raw_startTime = 1700000000, raw_endTime = 1700086400,
     raw_totalVotes = 2, raw_creator = ''0xadmin'', raw_active = True,
     raw_resultsRevealed = False, raw_revealedResults = []\<rparr>"

definition ex_contract :: contract_handle where
  "ex_contract =
     \<lparr>c_isAuthorizedVoter = (\<lambda>tr a. Inr True),
      c_isAdmin = (\<lambda>tr a. Inr False),
      c_proposalCount = (\<lambda>tr. Inr 3),
      c_hasVoted = (\<lambda>tr i a. if i = 1 then Inl (Error ''call failed'') else Inr (i = 0)),
      c_getActiveProposals = (\<lambda>tr. Inr [ex_raw]),
      c_createProposal = (\<lambda>tr t d os n. Inr ex_tx),
      c_castVote = (\<lambda>tr p i a b. Inr ex_tx),
      c_revealResults = (\<lambda>tr p. Inr ex_tx),
      c_authorizeVoter = (\<lambda>tr a. Inr ex_tx),
      c_authorizeVoters = (\<lambda>tr as. Inr ex_tx)\<rparr>"

definition flaky_contract :: contract_handle where
  "flaky_contract =
     ex_contract\<lparr>c_castVote :=
       (\<lambda>tr p i a b. if filter isCastVote tr = [] then Inl (Error ''transport error'')
                      else Inr ex_tx)\<rparr>"

definition late_contract :: contract_handle where
  "late_contract =
     ex_contract\<lparr>c_getActiveProposals :=
       (\<lambda>tr. Inr [ex_raw\<lparr>raw_startTime := 9007199254740993\<rparr>])\<rparr>"

definition reverted_tx :: tx where
  "reverted_tx = \<lparr>hash = ''0xdef'', wait = Inr \<lparr>status = 0\<rparr>\<rparr>"

definition reverting_contract :: contract_handle where
  "reverting_contract =
     ex_contract\<lparr>c_revealResults := (\<lambda>tr p. Inr reverted_tx),
       c_castVote := (\<lambda>tr p i a b. Inr reverted_tx)\<rparr>"

definition mixed_contract :: contract_handle where
  "mixed_contract =
     ex_contract\<lparr>c_getActiveProposals :=
       (\<lambda>tr. Inr [ex_raw\<lparr>raw_startTime := 9007199254740993\<rparr>, ex_raw])\<rparr>"

definition crowded_contract :: contract_handle where
  "crowded_contract = ex_contract\<lparr>c_proposalCount := (\<lambda>tr. Inr 9007199254740993)\<rparr>"

definition ex_signer :: signer_handle where
  "ex_signer = \<lparr>getAddress = (\<lambda>tr. Inr ''0xvoter'')\<rparr>"

definition ex_instance :: fhevm_instance where
  "ex_instance = \<lparr>inst_encrypt32 = (\<lambda>tr v. Inr (Encrypted (Some [1, 2, 3]) (Some [4, 5])))\<rparr>"

definition failing_instance :: fhevm_instance where
  "failing_instance = \<lparr>inst_encrypt32 = (\<lambda>tr v. Inl (Error ''backend failure''))\<rparr>"

definition ex_env :: env where
  "ex_env = \<lparr>fetch = Inl (Error ''offline''),
     importFhevmjs = Inr (\<lambda>cfg. Inr ex_instance),
     aclAddress = ''0x50157CFfD6bBFA2DECe204a89ec419c23ef5755D'',
     randomBytes = (\<lambda>tr n. replicate n (of_nat (length tr))),
     hexlify = toHexString\<rparr>"

definition gateway_error_env :: env where
  "gateway_error_env = ex_env\<lparr>fetch := Inr \<lparr>ok = False, json = Inl (Error ''no body'')\<rparr>\<rparr>"

definition null_json_env :: env where
  "null_json_env = ex_env\<lparr>fetch := Inr \<lparr>ok = True, json = Inr None\<rparr>\<rparr>"

definition bad_json_env :: env where
  "bad_json_env = ex_env\<lparr>fetch := Inr \<lparr>ok = True, json = Inl (Error ''Unexpected token'')\<rparr>\<rparr>"

definition world0 :: world where
  "world0 = \<lparr>fhevmClient = \<lparr>instance' = None, provider = None, isReady = False, publicKey = None\<rparr>,
     votingContract = \<lparr>contract = None, signer = None, isFHEVMEnabled = False\<rparr>,
     trace = []\<rparr>"

definition ready_world :: "fhevm_instance \<Rightarrow> contract_handle \<Rightarrow> world" where
  "ready_world inst c =
     \<lparr>fhevmClient = \<lparr>instance' = Some inst, provider = None, isReady = True, publicKey = None\<rparr>,
      votingContract = \<lparr>contract = Some c, signer = Some ex_signer, isFHEVMEnabled = True\<rparr>,
      trace = []\<rparr>"

definition mainnet_provider :: BrowserProvider where
  "mainnet_provider = \<lparr>getNetwork = Inr \<lparr>chainId = 1, network_name = ''mainnet''\<rparr>\<rparr>"

definition dead_provider :: BrowserProvider where
  "dead_provider = \<lparr>getNetwork = Inl (Error ''network unreachable'')\<rparr>"

section \<open>Numbers and bytes\<close>

lemma fl_exact: "\<bar>n\<bar> < 2 ^ 53 \<Longrightarrow> fl n = Some n"
  by (simp add: fl_def)

lemma word8_cong: "x mod 256 = y mod 256 \<Longrightarrow> (word_of_int x :: 8 word) = word_of_int y"
  by (simp add: word_of_int_eq_iff take_bit_eq_mod)

lemma trunc_rem_mod: "(sgn a * (\<bar>a\<bar> mod 256)) mod 256 = a mod (256::int)"
proof (cases "0 \<le> a")
  case True
  then show ?thesis by (cases "a = 0") simp_all
next
  case False
  then have "sgn a * (\<bar>a\<bar> mod 256) = - ((- a) mod 256)" by simp
  then show ?thesis by (simp only: mod_minus_eq minus_minus)
qed

text \<open>
  A remainder that \<^verbatim>\<open>%\<close> leaves negative is brought back into range by the store into
  the byte array, so together they reduce modulo 256.
\<close>

lemma to_uint8_rem: "to_uint8 (js_rem (Some a) 256) = word_of_int a"
  unfolding to_uint8_def js_rem_def
  using word8_cong [OF trunc_rem_mod [of a]] by simp

lemma uint_word8: "uint (word_of_int k :: 8 word) = k mod 256"
  by (simp add: uint_word_of_int_eq take_bit_eq_mod)

section \<open>The simulated encryptor\<close>

lemma simulate_loop_inv:
  "length dat = 32 \<Longrightarrow> length pr = 32 \<Longrightarrow> i \<le> 32 \<Longrightarrow>
   simulate_loop v i dat pr =
     (take i dat @ map (sim_data v) [i..<32], take i pr @ map (sim_proof v) [i..<32])"
proof (induction v i dat pr rule: simulate_loop.induct)
  case (1 v i dat pr)
  show ?case
  proof (cases "i < 32")
    case True
    have "simulate_loop v i dat pr =
          simulate_loop v (i + 1) (dat[i := sim_data v i]) (pr[i := sim_proof v i])"
      using True by (subst simulate_loop.simps) (simp add: sim_data_def sim_proof_def)
    also have "\<dots> = (take (i + 1) (dat[i := sim_data v i]) @ map (sim_data v) [i + 1..<32],
                      take (i + 1) (pr[i := sim_proof v i]) @ map (sim_proof v) [i + 1..<32])"
      using "1.IH" [OF True] True "1.prems" unfolding sim_data_def sim_proof_def by simp
    also have "\<dots> = (take i dat @ map (sim_data v) [i..<32], take i pr @ map (sim_proof v) [i..<32])"
      using True "1.prems" by (simp add: take_Suc_conv_app_nth upt_conv_Cons)
    finally show ?thesis .
  next
    case False
    with "1.prems" have "i = 32" by simp
    with "1.prems" show ?thesis by (subst simulate_loop.simps) simp
  qed
qed

lemma simulateEncryption_eq:
  "simulateEncryption v =
     \<lparr>data = Some (map (sim_data v) [0..<32]), proof' = map (sim_proof v) [0..<32]\<rparr>"
  by (simp add: simulateEncryption_def simulate_loop_inv del: upt_Suc)

lemma sim_data_exact:
  assumes "7 * \<bar>v\<bar> + 403 < 2 ^ 53" and "i < 32"
  shows "uint (sim_data v i) = (v * 7 + int i * 13) mod 256"
proof -
  have "\<bar>v * 7\<bar> < 2 ^ 53" "\<bar>int i * 13\<bar> < 2 ^ 53" "\<bar>v * 7 + int i * 13\<bar> < 2 ^ 53"
    using assms by (simp_all add: abs_mult)
  then have "sim_data v i = word_of_int (v * 7 + int i * 13)"
    unfolding sim_data_def js_mul_def js_add_def
    by (simp only: fl_exact to_uint8_rem prod.case option.case)
  then show ?thesis by (simp only: uint_word8)
qed

lemma sim_proof_exact:
  assumes "11 * \<bar>v\<bar> + 527 < 2 ^ 53" and "i < 32"
  shows "uint (sim_proof v i) = (v * 11 + int i * 17) mod 256"
proof -
  have "\<bar>v * 11\<bar> < 2 ^ 53" "\<bar>int i * 17\<bar> < 2 ^ 53" "\<bar>v * 11 + int i * 17\<bar> < 2 ^ 53"
    using assms by (simp_all add: abs_mult)
  then have "sim_proof v i = word_of_int (v * 11 + int i * 17)"
    unfolding sim_proof_def js_mul_def js_add_def
    by (simp only: fl_exact to_uint8_rem prod.case option.case)
  then show ?thesis by (simp only: uint_word8)
qed

lemma sim_data_big: "sim_data 9007199254740992 (Suc 0) = 16"
  by (simp add: sim_data_def js_mul_def js_add_def js_rem_def to_uint8_def fl_def Let_def
      bitlen.simps)

text \<open>
  Claim C1, as amended. For every integer \<open>v\<close> with \<open>11 * \<bar>v\<bar> + 527 < 2 ^ 53\<close>, so that
  every intermediate number of the loop is exact, the simulated encryption of \<open>v\<close> has a
  \<open>data\<close> and a \<open>proof\<close> of 32 bytes each, with \<open>data[i] = (v * 7 + i * 13) mod 256\<close> and
  \<open>proof[i] = (v * 11 + i * 17) mod 256\<close> for every \<open>i\<close> below 32, also for a negative
  \<open>v\<close>. The result is a function of \<open>v\<close> alone.
\<close>

theorem simulateEncryption_formula:
  assumes "11 * \<bar>v\<bar> + 527 < 2 ^ 53"
  shows "\<exists>dat. data (simulateEncryption v) = Some dat \<and> length dat = 32
           \<and> length (proof' (simulateEncryption v)) = 32
           \<and> (\<forall>i<32. uint (dat ! i) = (v * 7 + int i * 13) mod 256
                    \<and> uint (proof' (simulateEncryption v) ! i) = (v * 11 + int i * 17) mod 256)"
proof -
  from assms have a7: "7 * \<bar>v\<bar> + 403 < 2 ^ 53" by simp
  show ?thesis
    using sim_data_exact [OF a7] sim_proof_exact [OF assms]
    by (simp add: simulateEncryption_eq del: upt_Suc)
qed

text \<open>The amended claim at \<open>v = -1\<close>, where \<^verbatim>\<open>%\<close> leaves negative remainders.\<close>

theorem simulateEncryption_formula_witness:
  "11 * \<bar>- 1 :: int\<bar> + 527 < 2 ^ 53
   \<and> (\<exists>dat. data (simulateEncryption (- 1)) = Some dat \<and> length dat = 32
           \<and> length (proof' (simulateEncryption (- 1))) = 32
           \<and> (\<forall>i<32. uint (dat ! i) = (- 1 * 7 + int i * 13) mod 256
                    \<and> uint (proof' (simulateEncryption (- 1)) ! i) = (- 1 * 11 + int i * 17) mod 256))"
  using simulateEncryption_formula [of "- 1"] by simp

text \<open>
  The claim as stated fails at \<open>v = 2 ^ 53\<close>: the sum \<open>v * 7 + 13\<close> is not a double and
  is rounded to \<open>v * 7 + 16\<close>, so \<open>data[1]\<close> is 16 and not \<open>(v * 7 + 13) mod 256 = 13\<close>.
\<close>

theorem simulateEncryption_counterexample:
  "map_option (\<lambda>d. d ! 1) (data (simulateEncryption 9007199254740992)) = Some 16
   \<and> (9007199254740992 * 7 + 1 * 13) mod 256 \<noteq> (16 :: int)"
  by (simp add: simulateEncryption_eq sim_data_big del: upt_Suc)

section \<open>The hex codec\<close>

lemma hexDigit_cases:
  assumes "d < (16::nat)"
  obtains "d = 0" | "d = 1" | "d = 2" | "d = 3" | "d = 4" | "d = 5" | "d = 6" | "d = 7"
    | "d = 8" | "d = 9" | "d = 10" | "d = 11" | "d = 12" | "d = 13" | "d = 14" | "d = 15"
  using assms by atomize_elim presburger

lemma hexValue_hexDigit: "d < 16 \<Longrightarrow> hexValue (hexDigit d) = Some (int d)"
  by (erule hexDigit_cases) (simp_all add: hexValue_def hexDigit_def)

lemma hexDigit_plain:
  "d < 16 \<Longrightarrow> \<not> isStrWhiteSpace (hexDigit d) \<and> hexDigit d \<noteq> CHR ''-'' \<and> hexDigit d \<noteq> CHR ''+''
     \<and> hexDigit d \<noteq> CHR ''x'' \<and> hexDigit d \<noteq> CHR ''X''"
  by (erule hexDigit_cases) (simp_all add: isStrWhiteSpace_def hexDigit_def)

lemma parseInt16_pair:
  assumes "h < 16" "l < 16"
  shows "parseInt16 [hexDigit h, hexDigit l] = Some (int h * 16 + int l)"
proof -
  have "\<bar>int h * 16 + int l\<bar> < 2 ^ 53" using assms by simp
  then show ?thesis
    using hexDigit_plain [OF assms(1)] hexDigit_plain [OF assms(2)]
    by (simp add: parseInt16_def hexValue_hexDigit assms fl_exact)
qed

lemma unat_byte_less: "unat (b :: 8 word) < 256"
  using unsigned_less [of b, where ?'a = nat] by simp

lemma hex2_eq: "hex2 b = [hexDigit (unat b div 16), hexDigit (unat b mod 16)]"
proof (cases "unat b < 16")
  case True
  then show ?thesis
    by (simp add: hex2_def padStart_def toString16.simps [of "unat b"] hexDigit_def)
next
  case False
  have "unat b div 16 < 16" using unat_byte_less [of b] by simp
  with False show ?thesis
    by (simp add: hex2_def padStart_def toString16.simps [of "unat b"]
        toString16.simps [of "unat b div 16"])
qed

lemma parse_hex2: "to_uint8 (parseInt16 (hex2 b)) = b"
proof -
  have "unat b div 16 < 16" "unat b mod 16 < 16" using unat_byte_less [of b] by simp_all
  then have "parseInt16 (hex2 b) = Some (int (unat b div 16) * 16 + int (unat b mod 16))"
    by (simp only: hex2_eq parseInt16_pair)
  also have "int (unat b div 16) * 16 + int (unat b mod 16) = int (unat b)"
    by (simp add: zdiv_int zmod_int)
  finally show ?thesis by (simp add: to_uint8_def)
qed

lemma length_hex2 [simp]: "length (hex2 b) = 2"
  by (simp add: hex2_eq)

lemma length_concat_hex2 [simp]: "length (concat (map hex2 bs)) = 2 * length bs"
  by (induction bs) simp_all

lemma toHexString_hex2: "toHexString bs = ''0x'' @ concat (map hex2 bs)"
  by (simp add: toHexString_def hex2_def [abs_def])

lemma substr_concat_hex2:
  "k < length bs \<Longrightarrow> substr (concat (map hex2 bs)) (2 * k) 2 = hex2 (bs ! k)"
proof (induction bs arbitrary: k)
  case Nil
  then show ?case by simp
next
  case (Cons b bs)
  show ?case
  proof (cases k)
    case 0
    then show ?thesis by (simp add: substr_def)
  next
    case (Suc j)
    with Cons.prems have "j < length bs" by simp
    from Cons.IH [OF this] Suc show ?thesis by (simp add: substr_def)
  qed
qed

text \<open>
  The decoding loop, started at pair \<open>k\<close> with the first \<open>k\<close> bytes already right, ends
  with all of them right.
\<close>

lemma fromHex_loop_inv:
  "length acc = length bs \<Longrightarrow> k \<le> length bs \<Longrightarrow> take k acc = take k bs \<Longrightarrow>
   fromHex_loop (concat (map hex2 bs)) (2 * k) acc = bs"
proof (induction "length bs - k" arbitrary: k acc)
  case 0
  then have "k = length bs" by simp
  with 0 show ?case by (subst fromHex_loop.simps) simp
next
  case (Suc n)
  then have lt: "k < length bs" by simp
  let ?acc = "acc[k := bs ! k]"
  have step: "fromHex_loop (concat (map hex2 bs)) (2 * k) acc
        = fromHex_loop (concat (map hex2 bs)) (2 * Suc k) ?acc"
    using lt by (subst fromHex_loop.simps) (simp add: substr_concat_hex2 parse_hex2)
  have "take (Suc k) ?acc = take (Suc k) bs"
    using lt Suc.prems by (simp add: take_Suc_conv_app_nth)
  moreover have "n = length bs - Suc k" using Suc.hyps(2) by simp
  ultimately have "fromHex_loop (concat (map hex2 bs)) (2 * Suc k) ?acc = bs"
    using Suc.hyps(1) [of "Suc k" ?acc] lt Suc.prems by simp
  with step show ?case by simp
qed

text \<open>
  Claim C2. For every byte sequence \<open>b\<close>, decoding the hex string of \<open>b\<close> gives \<open>b\<close>
  back; \<^verbatim>\<open>toHexString\<close> starts its output with the two characters \<^verbatim>\<open>0x\<close>, and
  \<^verbatim>\<open>fromHexString\<close> removes them before it decodes.
\<close>

theorem fromHexString_toHexString:
  "fromHexString (toHexString b) = b \<and> take 2 (toHexString b) = ''0x''"
proof -
  have "fromHexString (toHexString b)
        = fromHex_loop (concat (map hex2 b)) 0 (replicate (length b) 0)"
    by (simp add: toHexString_hex2 fromHexString_def startsWith_def)
  also have "\<dots> = b"
    using fromHex_loop_inv [of "replicate (length b) 0" b 0] by simp
  finally show ?thesis by (simp add: toHexString_hex2)
qed

section \<open>Encrypting a value and a vote\<close>

text \<open>
  Whatever the backend does, \<^verbatim>\<open>encrypt32\<close> returns a ciphertext, changes nothing but the
  trace, and adds to the trace at most the one call of the backend.
\<close>

lemma encrypt32_shape:
  "\<exists>c evs. encrypt32 w v = (Inr c, w\<lparr>trace := trace w @ evs\<rparr>) \<and> set evs \<subseteq> {BackendEncrypt32 v}"
proof (cases "instance' (fhevmClient w)")
  case None
  then have "encrypt32 w v = (Inr (simulateEncryption v), w\<lparr>trace := trace w @ []\<rparr>)"
    by (simp add: encrypt32_def)
  then show ?thesis by (metis empty_subsetI list.set(1))
next
  case (Some inst)
  show ?thesis
  proof (cases "isReady (fhevmClient w)")
    case False
    with Some have "encrypt32 w v = (Inr (simulateEncryption v), w\<lparr>trace := trace w @ []\<rparr>)"
      by (simp add: encrypt32_def)
    then show ?thesis by (metis empty_subsetI list.set(1))
  next
    case True
    have "\<exists>c. encrypt32 w v = (Inr c, w\<lparr>trace := trace w @ [BackendEncrypt32 v]\<rparr>)"
      using Some True
      by (simp add: encrypt32_def encrypt32_try_def emit_def Let_def
          split: sum.split backend_value.split)
    then show ?thesis by (metis list.set(1) list.simps(15) subset_refl)
  qed
qed

lemma encrypt32_state:
  "fhevmClient (snd (encrypt32 w v)) = fhevmClient w
   \<and> votingContract (snd (encrypt32 w v)) = votingContract w"
  using encrypt32_shape [of w v] by auto

text \<open>
  Claim C4. \<^verbatim>\<open>encrypt32\<close> returns a ciphertext for every integer and every state of the
  adapter, and never an error; the fields of the adapter, the ready flag among them, are
  left as they were. Without a ready flag or without an instance it returns the simulated
  ciphertext and calls nothing; when the backend call throws, the error is caught and the
  simulated ciphertext is returned.
\<close>

theorem encrypt32_total:
  "(\<exists>c. fst (encrypt32 w v) = Inr c)
   \<and> fhevmClient (snd (encrypt32 w v)) = fhevmClient w
   \<and> (\<not> isInitialized w \<longrightarrow> encrypt32 w v = (Inr (simulateEncryption v), w))
   \<and> (\<forall>inst e. isReady (fhevmClient w) \<and> instance' (fhevmClient w) = Some inst
          \<and> inst_encrypt32 inst (trace w) v = Inl e
        \<longrightarrow> fst (encrypt32 w v) = Inr (simulateEncryption v))"
proof (intro conjI allI impI)
  show "\<exists>c. fst (encrypt32 w v) = Inr c"
    using encrypt32_shape [of w v] by auto
  show "fhevmClient (snd (encrypt32 w v)) = fhevmClient w"
    by (simp add: encrypt32_state)
  show "encrypt32 w v = (Inr (simulateEncryption v), w)" if "\<not> isInitialized w"
    using that by (auto simp: isInitialized_def encrypt32_def split: option.split)
  show "fst (encrypt32 w v) = Inr (simulateEncryption v)"
    if "isReady (fhevmClient w) \<and> instance' (fhevmClient w) = Some inst
        \<and> inst_encrypt32 inst (trace w) v = Inl e" for inst e
    using that by (simp add: encrypt32_def encrypt32_try_def Let_def)
qed

text \<open>
  The claim on an adapter whose backend throws, and on an adapter that was never
  initialised.
\<close>

theorem encrypt32_total_witness:
  "fst (encrypt32 (ready_world failing_instance ex_contract) 5) = Inr (simulateEncryption 5)
   \<and> isReady (fhevmClient (snd (encrypt32 (ready_world failing_instance ex_contract) 5)))
   \<and> encrypt32 world0 5 = (Inr (simulateEncryption 5), world0)"
proof -
  let ?w = "ready_world failing_instance ex_contract"
  have h: "isReady (fhevmClient ?w) \<and> instance' (fhevmClient ?w) = Some failing_instance
        \<and> inst_encrypt32 failing_instance (trace ?w) 5 = Inl (Error ''backend failure'')"
    by (simp add: ready_world_def failing_instance_def)
  have n: "\<not> isInitialized world0" by (simp add: isInitialized_def world0_def)
  from encrypt32_total [of ?w 5] h
  have "fst (encrypt32 ?w 5) = Inr (simulateEncryption 5)"
    and "fhevmClient (snd (encrypt32 ?w 5)) = fhevmClient ?w" by blast+
  moreover from encrypt32_total [of world0 5] n
  have "encrypt32 world0 5 = (Inr (simulateEncryption 5), world0)" by blast
  ultimately show ?thesis by (simp add: ready_world_def)
qed

text \<open>
  Claim C3. \<^verbatim>\<open>encryptVote\<close> raises exactly when the choice is neither 0 nor 1, and
  then the error is \<open>InvalidChoice\<close> and the world is untouched; for 0 and 1 it returns
  the two parts of what \<^verbatim>\<open>encrypt32\<close> gives for that choice. In both cases the fields of
  the adapter are left as they were.
\<close>

theorem encryptVote_InvalidChoice:
  "((\<exists>e. fst (encryptVote w choice) = Inl e) \<longleftrightarrow> choice \<notin> {0, 1})
   \<and> (choice \<notin> {0, 1} \<longrightarrow> encryptVote w choice = (Inl InvalidChoice, w))
   \<and> (choice \<in> {0, 1} \<longrightarrow>
        (\<exists>c. fst (encrypt32 w choice) = Inr c
           \<and> fst (encryptVote w choice) = Inr \<lparr>encryptedVote = data c, voteProof = proof' c\<rparr>))
   \<and> fhevmClient (snd (encryptVote w choice)) = fhevmClient w"
proof -
  obtain c evs where e: "encrypt32 w choice = (Inr c, w\<lparr>trace := trace w @ evs\<rparr>)"
    using encrypt32_shape [of w choice] by blast
  show ?thesis
  proof (cases "choice = 0 \<or> choice = 1")
    case True
    then have "encryptVote w choice
        = (Inr \<lparr>encryptedVote = data c, voteProof = proof' c\<rparr>, w\<lparr>trace := trace w @ evs\<rparr>)"
      using e by (auto simp: encryptVote_def)
    with True e show ?thesis by auto
  next
    case False
    then have "encryptVote w choice = (Inl InvalidChoice, w)"
      by (simp add: encryptVote_def)
    with False show ?thesis by auto
  qed
qed

text \<open>
  The claim at the choices 2 and 1 on an adapter that was never initialised.
\<close>

theorem encryptVote_InvalidChoice_witness:
  "encryptVote world0 2 = (Inl InvalidChoice, world0)
   \<and> fst (encryptVote world0 1)
       = Inr \<lparr>encryptedVote = data (simulateEncryption 1), voteProof = proof' (simulateEncryption 1)\<rparr>
   \<and> fhevmClient (snd (encryptVote world0 1)) = fhevmClient world0"
proof -
  have s: "fst (encrypt32 world0 1) = Inr (simulateEncryption 1)"
    by (simp add: encrypt32_def world0_def)
  from encryptVote_InvalidChoice [of world0 2]
  have "encryptVote world0 2 = (Inl InvalidChoice, world0)" by simp
  moreover from encryptVote_InvalidChoice [of world0 1] s
  have "fst (encryptVote world0 1)
       = Inr \<lparr>encryptedVote = data (simulateEncryption 1), voteProof = proof' (simulateEncryption 1)\<rparr>"
    and "fhevmClient (snd (encryptVote world0 1)) = fhevmClient world0" by auto
  ultimately show ?thesis by simp
qed

section \<open>Initialising the adapter\<close>

lemma fetchPublicKey_Inr: "\<exists>k. fetchPublicKey env w = (Inr (), set_publicKey w k)"
  by (auto simp: fetchPublicKey_def fetchPublicKey_try_def
      split: sum.split option.split key_json.split)

lemma fetchPublicKey_failed:
  assumes "(\<exists>e. fetch env = Inl e)
     \<or> (\<exists>resp. fetch env = Inr resp
           \<and> (\<not> ok resp \<or> (\<exists>e. json resp = Inl e) \<or> json resp = Inr None))"
  shows "fetchPublicKey env w = (Inr (), set_publicKey w None)"
  using assms
  by (auto simp: fetchPublicKey_def fetchPublicKey_try_def set_publicKey_def)

lemma fetchPublicKey_body:
  assumes "fetch env = Inr resp" "ok resp" "json resp = Inr (Some (KeyJson k1 k2))"
  shows "fetchPublicKey env w = (Inr (), set_publicKey w (js_or k1 k2))"
  using assms by (simp add: fetchPublicKey_def fetchPublicKey_try_def)

lemma instanceConfig_key:
  "cfg_publicKey (instanceConfig env (set_publicKey w k))
     = (case k of None \<Rightarrow> getDefaultPublicKey
        | Some s \<Rightarrow> if s = [] then getDefaultPublicKey else s)"
  by (simp add: instanceConfig_def set_publicKey_def js_or_def split: option.split)

lemma init_fhevmjs_cases:
  "(\<exists>e. init_fhevmjs env w = (Inl e, w)
        \<and> \<not> (\<exists>mk inst. importFhevmjs env = Inr mk \<and> mk (instanceConfig env w) = Inr inst))
   \<or> (\<exists>mk inst. importFhevmjs env = Inr mk \<and> mk (instanceConfig env w) = Inr inst
        \<and> init_fhevmjs env w
            = (Inr (), w\<lparr>fhevmClient := (fhevmClient w)\<lparr>instance' := Some inst, isReady := True\<rparr>\<rparr>))"
  by (auto simp: init_fhevmjs_def split: sum.split)

lemma init_try_network_failure:
  "getNetwork prov = Inl e \<Longrightarrow> init_try env w prov = (Inl e, w)"
  by (simp add: init_try_def)

lemma init_try_completes:
  assumes "getNetwork prov = Inr net"
  shows "\<exists>w1. init_try env w prov = (Inr (), w1)
           \<and> (isReady (fhevmClient w1) \<longleftrightarrow>
                (\<exists>mk inst. importFhevmjs env = Inr mk
                    \<and> mk (instanceConfig env (snd (fetchPublicKey env w))) = Inr inst))"
proof -
  obtain k where f: "fetchPublicKey env w = (Inr (), set_publicKey w k)"
    using fetchPublicKey_Inr by blast
  let ?w1 = "set_publicKey w k"
  from init_fhevmjs_cases [of env ?w1] show ?thesis
  proof (elim disjE exE conjE)
    fix e
    assume a: "init_fhevmjs env ?w1 = (Inl e, ?w1)"
      and b: "\<not> (\<exists>mk inst. importFhevmjs env = Inr mk \<and> mk (instanceConfig env ?w1) = Inr inst)"
    have "init_try env w prov = (Inr (), set_isReady ?w1 False)"
      using assms f a by (simp add: init_try_def)
    with b f show ?thesis by (simp add: set_isReady_def)
  next
    fix mk inst
    assume a: "importFhevmjs env = Inr mk" "mk (instanceConfig env ?w1) = Inr inst"
      and b: "init_fhevmjs env ?w1
            = (Inr (), ?w1\<lparr>fhevmClient := (fhevmClient ?w1)\<lparr>instance' := Some inst, isReady := True\<rparr>\<rparr>)"
    have "init_try env w prov
          = (Inr (), ?w1\<lparr>fhevmClient := (fhevmClient ?w1)\<lparr>instance' := Some inst, isReady := True\<rparr>\<rparr>)"
      using assms f b by (simp add: init_try_def)
    with a f show ?thesis by auto
  qed
qed

text \<open>
  Claim C5, as amended. \<^verbatim>\<open>init\<close> surfaces an error to its caller exactly when the
  network query of the provider fails: that error is thrown again, with the ready flag
  cleared. In every other case it completes, whatever the chain identity is: the ready
  flag is then set exactly when the backend library could be imported and its instance
  created, so a failed construction only leaves the flag cleared. The fetch of the public
  key never throws. When it fails, because the request throws, the answer has an error
  status, or the body cannot be read or is \<^verbatim>\<open>null\<close>, the stored key is \<^verbatim>\<open>null\<close> and the
  instance is configured with the fallback key. When a body is read, its key is stored,
  and the instance is configured with it unless it is absent or empty, in which case the
  fallback key is used as well.
\<close>

theorem init_failure_iff:
  "(fst (init env w prov) = Inl e \<longleftrightarrow> getNetwork prov = Inl e)
   \<and> (getNetwork prov = Inl e \<longrightarrow> \<not> isReady (fhevmClient (snd (init env w prov))))
   \<and> (\<forall>net. getNetwork prov = Inr net \<longrightarrow>
         fst (init env w prov) = Inr ()
         \<and> (isReady (fhevmClient (snd (init env w prov))) \<longleftrightarrow>
              (\<exists>mk inst. importFhevmjs env = Inr mk
                 \<and> mk (instanceConfig env
                         (snd (fetchPublicKey env
                                (w\<lparr>fhevmClient := (fhevmClient w)\<lparr>provider := Some prov\<rparr>\<rparr>))))
                    = Inr inst)))
   \<and> (\<forall>w'. \<exists>k. fetchPublicKey env w' = (Inr (), set_publicKey w' k))
   \<and> (\<forall>w'. (\<exists>e'. fetch env = Inl e')
           \<or> (\<exists>resp. fetch env = Inr resp
                 \<and> (\<not> ok resp \<or> (\<exists>e'. json resp = Inl e') \<or> json resp = Inr None))
         \<longrightarrow> fetchPublicKey env w' = (Inr (), set_publicKey w' None)
           \<and> cfg_publicKey (instanceConfig env (snd (fetchPublicKey env w')))
               = getDefaultPublicKey)
   \<and> (\<forall>w' resp k1 k2. fetch env = Inr resp \<and> ok resp
           \<and> json resp = Inr (Some (KeyJson k1 k2))
         \<longrightarrow> fetchPublicKey env w' = (Inr (), set_publicKey w' (js_or k1 k2))
           \<and> cfg_publicKey (instanceConfig env (snd (fetchPublicKey env w')))
               = (case js_or k1 k2 of
                    None \<Rightarrow> getDefaultPublicKey
                  | Some s \<Rightarrow> if s = [] then getDefaultPublicKey else s))"
proof -
  let ?w0 = "w\<lparr>fhevmClient := (fhevmClient w)\<lparr>provider := Some prov\<rparr>\<rparr>"
  have never: "\<forall>w'. \<exists>k. fetchPublicKey env w' = (Inr (), set_publicKey w' k)"
    using fetchPublicKey_Inr by blast
  have key: "\<forall>w'. (\<exists>e'. fetch env = Inl e')
           \<or> (\<exists>resp. fetch env = Inr resp
                 \<and> (\<not> ok resp \<or> (\<exists>e'. json resp = Inl e') \<or> json resp = Inr None))
         \<longrightarrow> fetchPublicKey env w' = (Inr (), set_publicKey w' None)
           \<and> cfg_publicKey (instanceConfig env (snd (fetchPublicKey env w')))
               = getDefaultPublicKey"
  proof (intro allI impI)
    fix w'
    assume "(\<exists>e'. fetch env = Inl e')
           \<or> (\<exists>resp. fetch env = Inr resp
                 \<and> (\<not> ok resp \<or> (\<exists>e'. json resp = Inl e') \<or> json resp = Inr None))"
    from fetchPublicKey_failed [OF this, of w']
    show "fetchPublicKey env w' = (Inr (), set_publicKey w' None)
           \<and> cfg_publicKey (instanceConfig env (snd (fetchPublicKey env w')))
               = getDefaultPublicKey"
      by (simp add: instanceConfig_key)
  qed
  have body: "\<forall>w' resp k1 k2. fetch env = Inr resp \<and> ok resp
           \<and> json resp = Inr (Some (KeyJson k1 k2))
         \<longrightarrow> fetchPublicKey env w' = (Inr (), set_publicKey w' (js_or k1 k2))
           \<and> cfg_publicKey (instanceConfig env (snd (fetchPublicKey env w')))
               = (case js_or k1 k2 of
                    None \<Rightarrow> getDefaultPublicKey
                  | Some s \<Rightarrow> if s = [] then getDefaultPublicKey else s)"
  proof (intro allI impI)
    fix w' resp k1 k2
    assume "fetch env = Inr resp \<and> ok resp \<and> json resp = Inr (Some (KeyJson k1 k2))"
    then have "fetchPublicKey env w' = (Inr (), set_publicKey w' (js_or k1 k2))"
      using fetchPublicKey_body [of env resp k1 k2 w'] by simp
    then show "fetchPublicKey env w' = (Inr (), set_publicKey w' (js_or k1 k2))
           \<and> cfg_publicKey (instanceConfig env (snd (fetchPublicKey env w')))
               = (case js_or k1 k2 of
                    None \<Rightarrow> getDefaultPublicKey
                  | Some s \<Rightarrow> if s = [] then getDefaultPublicKey else s)"
      by (simp add: instanceConfig_key)
  qed
  have main: "(fst (init env w prov) = Inl e \<longleftrightarrow> getNetwork prov = Inl e)
   \<and> (getNetwork prov = Inl e \<longrightarrow> \<not> isReady (fhevmClient (snd (init env w prov))))
   \<and> (\<forall>net. getNetwork prov = Inr net \<longrightarrow>
         fst (init env w prov) = Inr ()
         \<and> (isReady (fhevmClient (snd (init env w prov))) \<longleftrightarrow>
              (\<exists>mk inst. importFhevmjs env = Inr mk
                 \<and> mk (instanceConfig env (snd (fetchPublicKey env ?w0))) = Inr inst)))"
  proof (cases "getNetwork prov")
    case (Inl e0)
    have "init env w prov = (Inl e0, set_isReady ?w0 False)"
      using init_try_network_failure [OF Inl, of env ?w0] by (simp add: init_def)
    with Inl show ?thesis by (auto simp: set_isReady_def)
  next
    case (Inr net)
    from init_try_completes [OF Inr, of env ?w0] obtain w1 where
      t: "init_try env ?w0 prov = (Inr (), w1)"
      and r: "isReady (fhevmClient w1) \<longleftrightarrow>
                (\<exists>mk inst. importFhevmjs env = Inr mk
                    \<and> mk (instanceConfig env (snd (fetchPublicKey env ?w0))) = Inr inst)"
      by blast
    have "init env w prov = (Inr (), w1)"
      using t by (simp add: init_def)
    with Inr r show ?thesis by auto
  qed
  note m1 = main [THEN conjunct1]
    and m2 = main [THEN conjunct2, THEN conjunct1]
    and m3 = main [THEN conjunct2, THEN conjunct2]
  show ?thesis by (intro conjI) (rule m1 m2 m3 never key body)+
qed

text \<open>
  The amended claim on a provider of another chain with the gateway offline, on a
  provider whose network query fails, and on gateways that answer with an error status,
  with a body that cannot be read, and with the body \<^verbatim>\<open>null\<close>.
\<close>

theorem init_failure_iff_witness:
  "fst (init ex_env world0 mainnet_provider) = Inr ()
   \<and> isReady (fhevmClient (snd (init ex_env world0 mainnet_provider)))
   \<and> \<not> isReady (fhevmClient (snd (init ex_env world0 dead_provider)))
   \<and> cfg_publicKey (instanceConfig ex_env (snd (fetchPublicKey ex_env world0)))
       = getDefaultPublicKey
   \<and> cfg_publicKey (instanceConfig gateway_error_env (snd (fetchPublicKey gateway_error_env world0)))
       = getDefaultPublicKey
   \<and> cfg_publicKey (instanceConfig bad_json_env (snd (fetchPublicKey bad_json_env world0)))
       = getDefaultPublicKey
   \<and> cfg_publicKey (instanceConfig null_json_env (snd (fetchPublicKey null_json_env world0)))
       = getDefaultPublicKey"
proof -
  have n: "getNetwork mainnet_provider = Inr \<lparr>chainId = 1, network_name = ''mainnet''\<rparr>"
    by (simp add: mainnet_provider_def)
  have d: "getNetwork dead_provider = Inl (Error ''network unreachable'')"
    by (simp add: dead_provider_def)
  have f1: "(\<exists>e'. fetch ex_env = Inl e')
           \<or> (\<exists>resp. fetch ex_env = Inr resp
                 \<and> (\<not> ok resp \<or> (\<exists>e'. json resp = Inl e') \<or> json resp = Inr None))"
    by (simp add: ex_env_def)
  have f2: "(\<exists>e'. fetch gateway_error_env = Inl e')
           \<or> (\<exists>resp. fetch gateway_error_env = Inr resp
                 \<and> (\<not> ok resp \<or> (\<exists>e'. json resp = Inl e') \<or> json resp = Inr None))"
    by (simp add: gateway_error_env_def)
  have f3: "(\<exists>e'. fetch bad_json_env = Inl e')
           \<or> (\<exists>resp. fetch bad_json_env = Inr resp
                 \<and> (\<not> ok resp \<or> (\<exists>e'. json resp = Inl e') \<or> json resp = Inr None))"
    by (simp add: bad_json_env_def)
  have f4: "(\<exists>e'. fetch null_json_env = Inl e')
           \<or> (\<exists>resp. fetch null_json_env = Inr resp
                 \<and> (\<not> ok resp \<or> (\<exists>e'. json resp = Inl e') \<or> json resp = Inr None))"
    by (simp add: null_json_env_def)
  have m: "\<exists>mk inst. importFhevmjs ex_env = Inr mk \<and> mk cfg = Inr inst" for cfg
    by (simp add: ex_env_def)
  note completes = init_failure_iff [THEN conjunct2, THEN conjunct2, THEN conjunct1, rule_format]
    and cleared = init_failure_iff [THEN conjunct2, THEN conjunct1, rule_format]
    and fallback = init_failure_iff [THEN conjunct2, THEN conjunct2, THEN conjunct2,
        THEN conjunct2, THEN conjunct1, rule_format]
  have "fst (init ex_env world0 mainnet_provider) = Inr ()"
    by (rule completes [OF n, THEN conjunct1])
  moreover have "isReady (fhevmClient (snd (init ex_env world0 mainnet_provider)))"
    using completes [OF n, THEN conjunct2, of ex_env world0] m by simp
  moreover have "\<not> isReady (fhevmClient (snd (init ex_env world0 dead_provider)))"
    by (rule cleared [OF d])
  moreover have "cfg_publicKey (instanceConfig ex_env (snd (fetchPublicKey ex_env world0)))
       = getDefaultPublicKey"
    by (rule fallback [OF f1, THEN conjunct2])
  moreover have "cfg_publicKey (instanceConfig gateway_error_env (snd (fetchPublicKey gateway_error_env world0)))
       = getDefaultPublicKey"
    by (rule fallback [OF f2, THEN conjunct2])
  moreover have "cfg_publicKey (instanceConfig bad_json_env (snd (fetchPublicKey bad_json_env world0)))
       = getDefaultPublicKey"
    by (rule fallback [OF f3, THEN conjunct2])
  moreover have "cfg_publicKey (instanceConfig null_json_env (snd (fetchPublicKey null_json_env world0)))
       = getDefaultPublicKey"
    by (rule fallback [OF f4, THEN conjunct2])
  ultimately show ?thesis by (intro conjI)
qed

text \<open>
  The claim as stated fails: when the network query of the provider throws, \<^verbatim>\<open>init\<close>
  throws that error to its caller.
\<close>

theorem init_counterexample:
  "fst (init ex_env world0 dead_provider) = Inl (Error ''network unreachable'')"
  by (simp add: init_def init_try_def dead_provider_def)

section \<open>Resolving the profile\<close>

text \<open>
  The step \<^verbatim>\<open>i++\<close> of the counter is exact below \<open>2 ^ 53\<close>; at \<open>2 ^ 53\<close> the sum
  \<open>2 ^ 53 + 1\<close> is rounded back to \<open>2 ^ 53\<close> and the counter stays where it is.
\<close>

lemma incr_exact: "i < 2 ^ 53 \<Longrightarrow> js_add (Some (int i)) (Some 1) = Some (int (Suc i))"
proof (cases "Suc i < 2 ^ 53")
  case True
  then have "int (Suc i) < int (2 ^ 53)" by (simp only: of_nat_less_iff)
  then have "\<bar>int i + 1\<bar> < 2 ^ 53" by simp
  then show ?thesis by (simp add: js_add_def fl_exact add.commute)
next
  case False
  assume "i < 2 ^ 53"
  with False have i: "i = 9007199254740991" by simp
  show ?thesis
    unfolding i by (simp add: js_add_def fl_def Let_def bitlen.simps)
qed

lemma incr_stuck: "js_add (Some 9007199254740992) (Some 1) = Some 9007199254740992"
  by (simp add: js_add_def fl_def Let_def bitlen.simps)

lemma scan_trace_Suc: "scan_trace base a (Suc i) = scan_trace base a i @ [HasVoted i a]"
  by (simp add: scan_trace_def)

text \<open>
  For a count of at most \<open>2 ^ 53\<close>, the scan from proposal \<open>i\<close> on returns: every
  remaining proposal is checked, in order, and exactly those whose check answers
  \<^verbatim>\<open>true\<close> are added; a check that throws adds nothing and does not stop the scan.
\<close>

lemma profile_loop_scan:
  "trace w = scan_trace base a i \<Longrightarrow> i \<le> n \<Longrightarrow> n \<le> 2 ^ 53 \<Longrightarrow>
   profile_loop c a n (Some (int i)) voted w
     = Some (voted @ filter (voted_in_scan c base a) [i..<n], w\<lparr>trace := scan_trace base a n\<rparr>)"
proof (induction "n - i" arbitrary: i voted w)
  case 0
  then have "i = n" by simp
  with 0 show ?case by (subst profile_loop.simps) simp
next
  case (Suc k)
  then have lt: "i < n" by simp
  with Suc.prems have small: "i < 2 ^ 53" by simp
  let ?w1 = "emit w (HasVoted i a)"
  let ?voted = "(case c_hasVoted c (trace w) i a of
                   Inl e \<Rightarrow> voted | Inr b \<Rightarrow> if b then voted @ [i] else voted)"
  have v: "?voted = voted @ filter (voted_in_scan c base a) [i]"
    using Suc.prems(1) by (auto simp: voted_in_scan_def split: sum.split)
  have t: "trace ?w1 = scan_trace base a (Suc i)"
    using Suc.prems(1) by (simp add: emit_def scan_trace_Suc)
  have "profile_loop c a n (Some (int i)) voted w
        = profile_loop c a n (Some (int (Suc i))) ?voted ?w1"
    using lt by (subst profile_loop.simps)
      (simp add: Let_def incr_exact [OF small, simplified] cong: sum.case_cong if_cong)
  also have "\<dots> = Some (?voted @ filter (voted_in_scan c base a) [Suc i..<n],
                    ?w1\<lparr>trace := scan_trace base a n\<rparr>)"
    using Suc.hyps(1) [of "Suc i" ?w1 ?voted] Suc.hyps(2) Suc.prems(3) t lt by simp
  also have "\<dots> = Some (voted @ filter (voted_in_scan c base a) [i..<n],
                    w\<lparr>trace := scan_trace base a n\<rparr>)"
    using lt by (simp add: v upt_conv_Cons emit_def)
  finally show ?case .
qed

text \<open>
  For a count above \<open>2 ^ 53\<close>, a scan whose counter is at most \<open>2 ^ 53\<close> never
  returns: by induction over the computation, no such scan has a result.
\<close>

lemma profile_loop_stuck:
  assumes "profile_loop c a n i voted w = Some y"
  shows "\<not> (\<exists>k. i = Some k \<and> 0 \<le> k \<and> k \<le> 2 ^ 53 \<and> 2 ^ 53 < int n)"
proof (rule profile_loop.raw_induct
    [where P = "\<lambda>c a n i voted w y. \<not> (\<exists>k. i = Some k \<and> 0 \<le> k \<and> k \<le> 2 ^ 53 \<and> 2 ^ 53 < int n)",
      OF _ assms])
  fix f c a n i voted w y
  assume IH: "\<And>c a n i voted w y. f c a n i voted w = Some y
      \<Longrightarrow> \<not> (\<exists>k. i = Some k \<and> 0 \<le> k \<and> k \<le> 2 ^ 53 \<and> 2 ^ 53 < int n)"
    and body: "(case i of None \<Rightarrow> Some (voted, w)
      | Some k \<Rightarrow>
          if k < int n then
            (let w1 = emit w (HasVoted (nat k) a);
                 voted' = (case c_hasVoted c (trace w) (nat k) a of
                             Inl e \<Rightarrow> voted
                           | Inr b \<Rightarrow> if b then voted @ [nat k] else voted)
             in f c a n (js_add (Some k) (Some 1)) voted' w1)
          else Some (voted, w)) = Some y"
  show "\<not> (\<exists>k. i = Some k \<and> 0 \<le> k \<and> k \<le> 2 ^ 53 \<and> 2 ^ 53 < int n)"
  proof
    assume "\<exists>k. i = Some k \<and> 0 \<le> k \<and> k \<le> 2 ^ 53 \<and> 2 ^ 53 < int n"
    then obtain k where k: "i = Some k" "0 \<le> k" "k \<le> 2 ^ 53" "2 ^ 53 < int n" by blast
    then have "k < int n" by simp
    with body k(1) obtain voted' w1 where
      r: "f c a n (js_add (Some k) (Some 1)) voted' w1 = Some y"
      by (simp add: Let_def)
    have "\<exists>k'. js_add (Some k) (Some 1) = Some k' \<and> 0 \<le> k' \<and> k' \<le> 2 ^ 53"
    proof (cases "k = 2 ^ 53")
      case True
      then show ?thesis by (simp add: incr_stuck)
    next
      case False
      with k have "nat k < 2 ^ 53" by (simp add: nat_less_iff)
      from incr_exact [OF this] k(2) have "js_add (Some k) (Some 1) = Some (k + 1)"
        by (simp add: add.commute)
      with k False show ?thesis by simp
    qed
    with IH [OF r] k(4) show False by blast
  qed
qed

lemma profile_loop_no_result:
  "2 ^ 53 < int n \<Longrightarrow> profile_loop c a n (Some 0) voted w = None"
  using profile_loop_stuck [of c a n "Some 0" voted w]
  by (cases "profile_loop c a n (Some 0) voted w") auto

lemma getUserProfile_no_error: "getUserProfile w \<noteq> Some (Inl e, w')"
  by (auto simp: getUserProfile_def split: option.split sum.split prod.split)

lemma getUserProfile_no_session:
  "signer (votingContract w) = None \<or> contract (votingContract w) = None
   \<Longrightarrow> getUserProfile w = Some (Inr None, w)"
  by (auto simp: getUserProfile_def split: option.split)

lemma getUserProfile_try_scan:
  assumes "getAddress s (trace w) = Inr a"
    and "c_isAuthorizedVoter c (trace w @ [GetAddress]) a = Inr au"
    and "c_isAdmin c (trace w @ [GetAddress, IsAuthorizedVoter a]) a = Inr ad"
    and "c_proposalCount c (trace w @ [GetAddress, IsAuthorizedVoter a, IsAdmin a]) = Inr n"
    and "n \<le> 2 ^ 53"
  shows "getUserProfile_try c s w
     = Some (Inr (Some \<lparr>address = a, isAuthorized = au, isAdmin = ad,
                   votedProposals = filter (voted_in_scan c (profile_base w a) a) [0..<n]\<rparr>),
        w\<lparr>trace := scan_trace (profile_base w a) a n\<rparr>)"
proof -
  let ?w4 = "w\<lparr>trace := trace w @ [GetAddress, IsAuthorizedVoter a, IsAdmin a, ProposalCount]\<rparr>"
  have t: "trace ?w4 = scan_trace (profile_base w a) a 0"
    by (simp add: scan_trace_def profile_base_def)
  have "profile_loop c a n (Some (int 0)) [] ?w4
      = Some ([] @ filter (voted_in_scan c (profile_base w a) a) [0..<n],
         ?w4\<lparr>trace := scan_trace (profile_base w a) a n\<rparr>)"
    using assms(5) by (intro profile_loop_scan [OF t]) simp_all
  then have l: "profile_loop c a n (Some 0) [] ?w4
      = Some (filter (voted_in_scan c (profile_base w a) a) [0..<n],
         w\<lparr>trace := scan_trace (profile_base w a) a n\<rparr>)"
    by simp
  show ?thesis
    using assms(1-4) by (simp add: getUserProfile_try_def Let_def emit_def l)
qed

lemma getUserProfile_try_crowded:
  assumes "getAddress s (trace w) = Inr a"
    and "c_isAuthorizedVoter c (trace w @ [GetAddress]) a = Inr au"
    and "c_isAdmin c (trace w @ [GetAddress, IsAuthorizedVoter a]) a = Inr ad"
    and "c_proposalCount c (trace w @ [GetAddress, IsAuthorizedVoter a, IsAdmin a]) = Inr n"
    and "2 ^ 53 < int n"
  shows "getUserProfile_try c s w = None"
  using assms(1-4)
  by (simp add: getUserProfile_try_def Let_def emit_def profile_loop_no_result [OF assms(5)])

text \<open>
  Claim C8, as amended. \<^verbatim>\<open>getUserProfile\<close> never raises. Without a signer or without a
  contract it returns \<^verbatim>\<open>null\<close> and calls nothing. When the address, the two permission
  flags and the proposal count can be read and the count is at most \<open>2 ^ 53\<close>, it
  returns a complete profile, whatever the vote checks do: the check is made for every
  proposal from 0 below the count, and \<open>votedProposals\<close> holds, in order, exactly the
  proposals whose check answered \<^verbatim>\<open>true\<close>, so a proposal whose check throws is left out
  and the scan goes on.
\<close>

theorem getUserProfile_partial_failure:
  "(\<forall>e w'. getUserProfile w \<noteq> Some (Inl e, w'))
   \<and> (signer (votingContract w) = None \<or> contract (votingContract w) = None
        \<longrightarrow> getUserProfile w = Some (Inr None, w))
   \<and> (\<forall>s c a au ad n.
         signer (votingContract w) = Some s \<and> contract (votingContract w) = Some c
         \<and> getAddress s (trace w) = Inr a
         \<and> c_isAuthorizedVoter c (trace w @ [GetAddress]) a = Inr au
         \<and> c_isAdmin c (trace w @ [GetAddress, IsAuthorizedVoter a]) a = Inr ad
         \<and> c_proposalCount c (trace w @ [GetAddress, IsAuthorizedVoter a, IsAdmin a]) = Inr n
         \<and> n \<le> 2 ^ 53
        \<longrightarrow> getUserProfile w
             = Some (Inr (Some \<lparr>address = a, isAuthorized = au, isAdmin = ad,
                   votedProposals = filter (voted_in_scan c (profile_base w a) a) [0..<n]\<rparr>),
                w\<lparr>trace := scan_trace (profile_base w a) a n\<rparr>))"
proof (intro conjI allI impI)
  show "getUserProfile w \<noteq> Some (Inl e, w')" for e w' by (rule getUserProfile_no_error)
  show "getUserProfile w = Some (Inr None, w)"
    if "signer (votingContract w) = None \<or> contract (votingContract w) = None"
    using that by (rule getUserProfile_no_session)
  fix s c a au ad n
  assume h: "signer (votingContract w) = Some s \<and> contract (votingContract w) = Some c
         \<and> getAddress s (trace w) = Inr a
         \<and> c_isAuthorizedVoter c (trace w @ [GetAddress]) a = Inr au
         \<and> c_isAdmin c (trace w @ [GetAddress, IsAuthorizedVoter a]) a = Inr ad
         \<and> c_proposalCount c (trace w @ [GetAddress, IsAuthorizedVoter a, IsAdmin a]) = Inr n
         \<and> n \<le> 2 ^ 53"
  then have "getUserProfile_try c s w
     = Some (Inr (Some \<lparr>address = a, isAuthorized = au, isAdmin = ad,
                   votedProposals = filter (voted_in_scan c (profile_base w a) a) [0..<n]\<rparr>),
        w\<lparr>trace := scan_trace (profile_base w a) a n\<rparr>)"
    by (intro getUserProfile_try_scan) simp_all
  with h show "getUserProfile w
             = Some (Inr (Some \<lparr>address = a, isAuthorized = au, isAdmin = ad,
                   votedProposals = filter (voted_in_scan c (profile_base w a) a) [0..<n]\<rparr>),
                w\<lparr>trace := scan_trace (profile_base w a) a n\<rparr>)"
    by (simp add: getUserProfile_def)
qed

text \<open>
  The amended claim on a ledger with three proposals where the check of proposal 1
  throws, and in the world before any connection.
\<close>

theorem getUserProfile_partial_failure_witness:
  "getUserProfile (ready_world ex_instance ex_contract)
     = Some (Inr (Some \<lparr>address = ''0xvoter'', isAuthorized = True, isAdmin = False,
                        votedProposals = [0]\<rparr>),
             (ready_world ex_instance ex_contract)
               \<lparr>trace := [GetAddress, IsAuthorizedVoter ''0xvoter'', IsAdmin ''0xvoter'',
                   ProposalCount, HasVoted 0 ''0xvoter'', HasVoted 1 ''0xvoter'',
                   HasVoted 2 ''0xvoter'']\<rparr>)
   \<and> getUserProfile world0 = Some (Inr None, world0)"
proof -
  let ?w = "ready_world ex_instance ex_contract"
  let ?a = "''0xvoter''"
  have h: "signer (votingContract ?w) = Some ex_signer \<and> contract (votingContract ?w) = Some ex_contract
         \<and> getAddress ex_signer (trace ?w) = Inr ?a
         \<and> c_isAuthorizedVoter ex_contract (trace ?w @ [GetAddress]) ?a = Inr True
         \<and> c_isAdmin ex_contract (trace ?w @ [GetAddress, IsAuthorizedVoter ?a]) ?a = Inr False
         \<and> c_proposalCount ex_contract (trace ?w @ [GetAddress, IsAuthorizedVoter ?a, IsAdmin ?a]) = Inr 3
         \<and> (3::nat) \<le> 2 ^ 53"
    by (simp add: ready_world_def ex_signer_def ex_contract_def)
  have u: "[0..<3] = [0, 1, 2]" by (simp add: upt_conv_Cons)
  have f: "filter (voted_in_scan ex_contract (profile_base ?w ?a) ?a) [0..<3] = [0]"
    by (simp add: u voted_in_scan_def ex_contract_def)
  have n: "signer (votingContract world0) = None \<or> contract (votingContract world0) = None"
    by (simp add: world0_def)
  have t: "scan_trace (profile_base ?w ?a) ?a 3
      = [GetAddress, IsAuthorizedVoter ?a, IsAdmin ?a, ProposalCount,
         HasVoted 0 ?a, HasVoted 1 ?a, HasVoted 2 ?a]"
    by (simp add: u scan_trace_def profile_base_def ready_world_def)
  from getUserProfile_partial_failure [of ?w] h
  have "getUserProfile ?w
        = Some (Inr (Some \<lparr>address = ?a, isAuthorized = True, isAdmin = False,
                   votedProposals = filter (voted_in_scan ex_contract (profile_base ?w ?a) ?a) [0..<3]\<rparr>),
                ?w\<lparr>trace := scan_trace (profile_base ?w ?a) ?a 3\<rparr>)"
    by blast
  then have e: "getUserProfile ?w
        = Some (Inr (Some \<lparr>address = ?a, isAuthorized = True, isAdmin = False, votedProposals = [0]\<rparr>),
           ?w\<lparr>trace := [GetAddress, IsAuthorizedVoter ?a, IsAdmin ?a, ProposalCount,
         HasVoted 0 ?a, HasVoted 1 ?a, HasVoted 2 ?a]\<rparr>)"
    by (simp only: f t)
  from getUserProfile_partial_failure [of world0] n
  have "getUserProfile world0 = Some (Inr None, world0)" by blast
  with e show ?thesis by simp
qed

text \<open>
  The claim as stated fails on a ledger that counts \<open>2 ^ 53 + 1\<close> proposals: the
  counter never passes \<open>2 ^ 53\<close>, the scan does not end, and no profile is returned.
\<close>

theorem getUserProfile_counterexample:
  "getUserProfile (ready_world ex_instance crowded_contract) = None"
proof -
  let ?w = "ready_world ex_instance crowded_contract"
  let ?a = "''0xvoter''"
  have "getUserProfile_try crowded_contract ex_signer ?w = None"
    by (rule getUserProfile_try_crowded [where a = ?a and au = True and ad = False
          and n = 9007199254740993])
       (simp_all add: ready_world_def ex_signer_def crowded_contract_def ex_contract_def)
  then show ?thesis
    by (simp add: getUserProfile_def ready_world_def)
qed

section \<open>Reading the active proposals\<close>

lemma seconds_to_ms_exact:
  assumes "x * 1000 < (2::nat) ^ 53"
  shows "js_mul (js_Number x) (Some 1000) = Some (int x * 1000)"
proof -
  have a: "int x * 1000 < 2 ^ 53"
    using assms by (metis of_nat_less_iff of_nat_mult of_nat_numeral of_nat_power)
  then have "\<bar>int x\<bar> < 2 ^ 53" "\<bar>int x * 1000\<bar> < 2 ^ 53" by simp_all
  then show ?thesis by (simp add: js_mul_def js_Number_def fl_exact)
qed

lemma proposals_loop_times:
  "map startTime (fst (proposals_loop c ua raws ps w))
     = map startTime ps @ map (\<lambda>r. js_mul (js_Number (raw_startTime r)) (Some 1000)) raws
   \<and> map endTime (fst (proposals_loop c ua raws ps w))
     = map endTime ps @ map (\<lambda>r. js_mul (js_Number (raw_endTime r)) (Some 1000)) raws"
proof (induction raws arbitrary: ps w)
  case Nil
  show ?case by simp
next
  case (Cons r raws)
  show ?case
    by (simp add: Cons.IH toProposal_def split_def Let_def)
qed

lemma getActiveProposals_total: "\<exists>ps. fst (getActiveProposals w) = Inr ps"
  by (auto simp: getActiveProposals_def split: option.split sum.split prod.split)

lemma getActiveProposals_read_failure:
  "contract (votingContract w) = Some c \<Longrightarrow> c_getActiveProposals c (trace w) = Inl e
   \<Longrightarrow> fst (getActiveProposals w) = Inr []"
  by (simp add: getActiveProposals_def getActiveProposals_try_def Let_def)

lemma getActiveProposals_address_failure:
  "contract (votingContract w) = Some c \<Longrightarrow> signer (votingContract w) = Some s
   \<Longrightarrow> getAddress s (trace w @ [GetActiveProposals]) = Inl e
   \<Longrightarrow> fst (getActiveProposals w) = Inr []"
  by (simp add: getActiveProposals_def getActiveProposals_try_def Let_def emit_def
      split: sum.split)

lemma getActiveProposals_times:
  assumes "contract (votingContract w) = Some c"
    and "c_getActiveProposals c (trace w) = Inr raws"
    and "signer (votingContract w) = None
         \<or> (\<exists>s a. signer (votingContract w) = Some s
                \<and> getAddress s (trace w @ [GetActiveProposals]) = Inr a)"
  shows "\<exists>ps. fst (getActiveProposals w) = Inr ps
     \<and> map startTime ps = map (\<lambda>r. js_mul (js_Number (raw_startTime r)) (Some 1000)) raws
     \<and> map endTime ps = map (\<lambda>r. js_mul (js_Number (raw_endTime r)) (Some 1000)) raws"
  using assms(3)
proof (elim disjE exE conjE)
  assume n: "signer (votingContract w) = None"
  have "fst (getActiveProposals w)
        = Inr (fst (proposals_loop c None raws [] (emit w GetActiveProposals)))"
    using assms(1,2) n
    by (simp add: getActiveProposals_def getActiveProposals_try_def Let_def split_def)
  then show ?thesis
    using proposals_loop_times [of c None raws "[]" "emit w GetActiveProposals"] by simp
next
  fix s a
  assume n: "signer (votingContract w) = Some s"
    "getAddress s (trace w @ [GetActiveProposals]) = Inr a"
  have "fst (getActiveProposals w)
        = Inr (fst (proposals_loop c (Some a) raws [] (emit (emit w GetActiveProposals) GetAddress)))"
    using assms(1,2) n
    by (simp add: getActiveProposals_def getActiveProposals_try_def Let_def split_def emit_def)
  then show ?thesis
    using proposals_loop_times [of c "Some a" raws "[]" "emit (emit w GetActiveProposals) GetAddress"]
    by simp
qed

lemma getActiveProposals_records:
  assumes "contract (votingContract w) = Some c"
    and "c_getActiveProposals c (trace w) = Inr raws"
    and "signer (votingContract w) = None
         \<or> (\<exists>s a. signer (votingContract w) = Some s
                \<and> getAddress s (trace w @ [GetActiveProposals]) = Inr a)"
  shows "\<exists>ps. fst (getActiveProposals w) = Inr ps \<and> length ps = length raws
     \<and> (\<forall>k<length raws.
           startTime (ps ! k) = js_mul (js_Number (raw_startTime (raws ! k))) (Some 1000)
           \<and> endTime (ps ! k) = js_mul (js_Number (raw_endTime (raws ! k))) (Some 1000))"
proof -
  from getActiveProposals_times [OF assms] obtain ps where
    p: "fst (getActiveProposals w) = Inr ps"
    and s: "map startTime ps = map (\<lambda>r. js_mul (js_Number (raw_startTime r)) (Some 1000)) raws"
    and e: "map endTime ps = map (\<lambda>r. js_mul (js_Number (raw_endTime r)) (Some 1000)) raws"
    by blast
  from s have l: "length ps = length raws" by (rule map_eq_imp_length_eq)
  have "startTime (ps ! k) = js_mul (js_Number (raw_startTime (raws ! k))) (Some 1000)
      \<and> endTime (ps ! k) = js_mul (js_Number (raw_endTime (raws ! k))) (Some 1000)"
    if "k < length raws" for k
  proof -
    have "startTime (ps ! k) = map startTime ps ! k" "endTime (ps ! k) = map endTime ps ! k"
      using that l by simp_all
    with that show ?thesis by (simp add: s e)
  qed
  with p l show ?thesis by blast
qed

text \<open>
  Claim C9, as amended. \<^verbatim>\<open>getActiveProposals\<close> never raises; when the remote read of
  the proposals fails, or the read of the signer's address fails, it returns the empty
  list. Otherwise it returns one record for each proposal read, in order, and each
  record on its own has a \<open>startTime\<close> of exactly 1000 times the remote value when that
  product stays below \<open>2 ^ 53\<close>, and likewise an \<open>endTime\<close>, whatever the other records
  and the other field hold.
\<close>

theorem getActiveProposals_milliseconds:
  "(\<exists>ps. fst (getActiveProposals w) = Inr ps)
   \<and> (\<forall>c e. contract (votingContract w) = Some c \<and> c_getActiveProposals c (trace w) = Inl e
        \<longrightarrow> fst (getActiveProposals w) = Inr [])
   \<and> (\<forall>c s e. contract (votingContract w) = Some c \<and> signer (votingContract w) = Some s
          \<and> getAddress s (trace w @ [GetActiveProposals]) = Inl e
        \<longrightarrow> fst (getActiveProposals w) = Inr [])
   \<and> (\<forall>c raws. contract (votingContract w) = Some c
          \<and> c_getActiveProposals c (trace w) = Inr raws
          \<and> (signer (votingContract w) = None
              \<or> (\<exists>s a. signer (votingContract w) = Some s
                     \<and> getAddress s (trace w @ [GetActiveProposals]) = Inr a))
        \<longrightarrow> (\<exists>ps. fst (getActiveProposals w) = Inr ps \<and> length ps = length raws
               \<and> (\<forall>k<length raws.
                     (raw_startTime (raws ! k) * 1000 < 2 ^ 53
                        \<longrightarrow> startTime (ps ! k) = Some (int (raw_startTime (raws ! k)) * 1000))
                     \<and> (raw_endTime (raws ! k) * 1000 < 2 ^ 53
                        \<longrightarrow> endTime (ps ! k) = Some (int (raw_endTime (raws ! k)) * 1000)))))"
proof (intro conjI allI impI)
  show "\<exists>ps. fst (getActiveProposals w) = Inr ps" by (rule getActiveProposals_total)
  show "fst (getActiveProposals w) = Inr []"
    if "contract (votingContract w) = Some c \<and> c_getActiveProposals c (trace w) = Inl e" for c e
    using that getActiveProposals_read_failure by blast
  show "fst (getActiveProposals w) = Inr []"
    if "contract (votingContract w) = Some c \<and> signer (votingContract w) = Some s
          \<and> getAddress s (trace w @ [GetActiveProposals]) = Inl e" for c s e
    using that getActiveProposals_address_failure by blast
  fix c raws
  assume h: "contract (votingContract w) = Some c
          \<and> c_getActiveProposals c (trace w) = Inr raws
          \<and> (signer (votingContract w) = None
              \<or> (\<exists>s a. signer (votingContract w) = Some s
                     \<and> getAddress s (trace w @ [GetActiveProposals]) = Inr a))"
  then obtain ps where p: "fst (getActiveProposals w) = Inr ps" "length ps = length raws"
    and t: "\<forall>k<length raws.
           startTime (ps ! k) = js_mul (js_Number (raw_startTime (raws ! k))) (Some 1000)
           \<and> endTime (ps ! k) = js_mul (js_Number (raw_endTime (raws ! k))) (Some 1000)"
    using getActiveProposals_records [of w c raws] by blast
  have "\<forall>k<length raws.
          (raw_startTime (raws ! k) * 1000 < 2 ^ 53
             \<longrightarrow> startTime (ps ! k) = Some (int (raw_startTime (raws ! k)) * 1000))
          \<and> (raw_endTime (raws ! k) * 1000 < 2 ^ 53
             \<longrightarrow> endTime (ps ! k) = Some (int (raw_endTime (raws ! k)) * 1000))"
    using t by (simp add: seconds_to_ms_exact)
  with p show "\<exists>ps. fst (getActiveProposals w) = Inr ps \<and> length ps = length raws
               \<and> (\<forall>k<length raws.
                     (raw_startTime (raws ! k) * 1000 < 2 ^ 53
                        \<longrightarrow> startTime (ps ! k) = Some (int (raw_startTime (raws ! k)) * 1000))
                     \<and> (raw_endTime (raws ! k) * 1000 < 2 ^ 53
                        \<longrightarrow> endTime (ps ! k) = Some (int (raw_endTime (raws ! k)) * 1000)))"
    by blast
qed

text \<open>
  The amended claim on a ledger with two proposals, the first with a \<open>startTime\<close> out
  of range: its \<open>endTime\<close> and both fields of the second record are exact.
\<close>

theorem getActiveProposals_milliseconds_witness:
  "\<exists>ps. fst (getActiveProposals (ready_world ex_instance mixed_contract)) = Inr ps
     \<and> length ps = 2
     \<and> endTime (ps ! 0) = Some 1700086400000
     \<and> startTime (ps ! 1) = Some 1700000000000
     \<and> endTime (ps ! 1) = Some 1700086400000"
proof -
  let ?w = "ready_world ex_instance mixed_contract"
  let ?raws = "[ex_raw\<lparr>raw_startTime := 9007199254740993\<rparr>, ex_raw]"
  have h: "contract (votingContract ?w) = Some mixed_contract
          \<and> c_getActiveProposals mixed_contract (trace ?w) = Inr ?raws
          \<and> (signer (votingContract ?w) = None
              \<or> (\<exists>s a. signer (votingContract ?w) = Some s
                     \<and> getAddress s (trace ?w @ [GetActiveProposals]) = Inr a))"
    by (simp add: ready_world_def mixed_contract_def ex_signer_def)
  note records = getActiveProposals_milliseconds
    [THEN conjunct2, THEN conjunct2, THEN conjunct2, rule_format]
  from records [OF h] obtain ps where
    p: "fst (getActiveProposals ?w) = Inr ps" "length ps = length ?raws"
    and t: "\<And>k. k < length ?raws \<Longrightarrow>
          (raw_startTime (?raws ! k) * 1000 < 2 ^ 53
             \<longrightarrow> startTime (ps ! k) = Some (int (raw_startTime (?raws ! k)) * 1000))
          \<and> (raw_endTime (?raws ! k) * 1000 < 2 ^ 53
             \<longrightarrow> endTime (ps ! k) = Some (int (raw_endTime (?raws ! k)) * 1000))"
    by blast
  from t [of 0] have "endTime (ps ! 0) = Some 1700086400000"
    by (simp add: ex_raw_def)
  moreover from t [of 1] have "startTime (ps ! 1) = Some 1700000000000"
    and "endTime (ps ! 1) = Some 1700086400000"
    by (simp_all add: ex_raw_def)
  ultimately show ?thesis using p by simp
qed

lemma late_start_rounds:
  "js_mul (js_Number 9007199254740993) (Some 1000) = Some 9007199254740992000"
  by (simp add: js_mul_def js_Number_def fl_def Let_def bitlen.simps)

text \<open>
  The claim as stated fails for a remote \<open>startTime\<close> of \<open>2 ^ 53 + 1\<close>:
  \<^verbatim>\<open>Number\<close> rounds it to \<open>2 ^ 53\<close>, and the field is \<open>2 ^ 53 * 1000\<close>.
\<close>

theorem getActiveProposals_counterexample:
  "map_sum id (map startTime) (fst (getActiveProposals (ready_world ex_instance late_contract)))
     = Inr [Some 9007199254740992000]
   \<and> (9007199254740992000 :: int) \<noteq> 9007199254740993 * 1000"
proof -
  let ?w = "ready_world ex_instance late_contract"
  have "contract (votingContract ?w) = Some late_contract"
    and "c_getActiveProposals late_contract (trace ?w) = Inr [ex_raw\<lparr>raw_startTime := 9007199254740993\<rparr>]"
    and "signer (votingContract ?w) = None
         \<or> (\<exists>s a. signer (votingContract ?w) = Some s
                \<and> getAddress s (trace ?w @ [GetActiveProposals]) = Inr a)"
    by (simp_all add: ready_world_def late_contract_def ex_signer_def)
  from getActiveProposals_times [OF this]
  show ?thesis by (auto simp: late_start_rounds)
qed

section \<open>Casting a vote\<close>

lemma vote_extends_refl: "vote_extends p i w w"
  unfolding vote_extends_def by (rule exI [of _ "[]"]) simp

lemma vote_extends_trans:
  "vote_extends p i w w1 \<Longrightarrow> vote_extends p i w1 w2 \<Longrightarrow> vote_extends p i w w2"
  unfolding vote_extends_def
proof (elim exE conjE)
  fix evs1 evs2
  assume "w1 = w\<lparr>trace := trace w @ evs1\<rparr>" "list_all (vote_event_ok p i) evs1"
    "w2 = w1\<lparr>trace := trace w1 @ evs2\<rparr>" "list_all (vote_event_ok p i) evs2"
  then have "w2 = w\<lparr>trace := trace w @ (evs1 @ evs2)\<rparr> \<and> list_all (vote_event_ok p i) (evs1 @ evs2)"
    by simp
  then show "\<exists>evs. w2 = w\<lparr>trace := trace w @ evs\<rparr> \<and> list_all (vote_event_ok p i) evs"
    by blast
qed

lemma vote_extends_emit:
  "vote_event_ok p i ev \<Longrightarrow> vote_extends p i w (emit w ev)"
  unfolding vote_extends_def by (rule exI [of _ "[ev]"]) (simp add: emit_def)

lemma encryptVote_one_extends:
  "\<exists>b w1. encryptVote w 1 = (Inr b, w1) \<and> vote_extends p i w w1"
proof -
  obtain c evs where e: "encrypt32 w 1 = (Inr c, w\<lparr>trace := trace w @ evs\<rparr>)"
    and s: "set evs \<subseteq> {BackendEncrypt32 1}"
    using encrypt32_shape [of w 1] by blast
  from s have "list_all (vote_event_ok p i) evs"
    by (auto simp: list_all_iff vote_event_ok_def)
  then have "vote_extends p i w (w\<lparr>trace := trace w @ evs\<rparr>)"
    unfolding vote_extends_def by blast
  with e show ?thesis by (simp add: encryptVote_def)
qed

lemma castVote_simulated_snd:
  "snd (castVote_simulated env c w p i)
     = w\<lparr>trace := trace w @ [RandomBytes 32, RandomBytes 32,
           CastVote p i (hexlify env (randomBytes env (trace w) 32))
             (hexlify env (randomBytes env (trace w @ [RandomBytes 32]) 32))]\<rparr>"
  by (simp add: castVote_simulated_def Let_def emit_def)

lemma castVote_simulated_fst:
  "fst (castVote_simulated env c w p i)
     = c_castVote c (trace w @ [RandomBytes 32, RandomBytes 32]) p i
         (hexlify env (randomBytes env (trace w) 32))
         (hexlify env (randomBytes env (trace w @ [RandomBytes 32]) 32))"
  by (simp add: castVote_simulated_def Let_def emit_def)

lemma castVote_simulated_extends:
  "vote_extends p i w (snd (castVote_simulated env c w p i))"
  unfolding vote_extends_def castVote_simulated_snd
  by (rule exI [of _ "[RandomBytes 32, RandomBytes 32,
           CastVote p i (hexlify env (randomBytes env (trace w) 32))
             (hexlify env (randomBytes env (trace w @ [RandomBytes 32]) 32))]"])
     (simp add: vote_event_ok_def)

lemma castVote_fhe_extends:
  "vote_extends p i w (snd (castVote_fhe c w p i))"
proof -
  obtain b w1 where e: "encryptVote w 1 = (Inr b, w1)" and x: "vote_extends p i w w1"
    using encryptVote_one_extends by blast
  show ?thesis
  proof (cases "encryptedVote b")
    case None
    with e x show ?thesis by (simp add: castVote_fhe_def)
  next
    case (Some ev)
    have "vote_extends p i w1
            (emit w1 (CastVote p i (createExternalInput ev) (toHexString (voteProof b))))"
      by (rule vote_extends_emit) (simp add: vote_event_ok_def)
    with x have "vote_extends p i w
            (emit w1 (CastVote p i (createExternalInput ev) (toHexString (voteProof b))))"
      by (rule vote_extends_trans)
    with e Some show ?thesis by (simp add: castVote_fhe_def Let_def)
  qed
qed

lemma castVote_send_extends:
  "vote_extends p i w (snd (castVote_send env c w p i))"
proof (cases "isFHEVMEnabled (votingContract w) \<and> isInitialized w")
  case False
  then show ?thesis
    using castVote_simulated_extends [of p i w env c] by (auto simp: castVote_send_def)
next
  case True
  obtain r w1 where f: "castVote_fhe c w p i = (r, w1)" by (cases "castVote_fhe c w p i")
  with castVote_fhe_extends [of p i w c] have x: "vote_extends p i w w1" by simp
  show ?thesis
  proof (cases r)
    case (Inl e)
    have "vote_extends p i w (snd (castVote_simulated env c w1 p i))"
      using x castVote_simulated_extends by (rule vote_extends_trans)
    with True f Inl show ?thesis by (simp add: castVote_send_def)
  next
    case (Inr t)
    with True f x show ?thesis by (simp add: castVote_send_def)
  qed
qed

lemma wait_status_snd: "snd (wait_status t w) = emit w (TxWait (hash t))"
  by (simp add: wait_status_def split: sum.split)

lemma castVote_extends: "vote_extends p i w (snd (castVote env w p i))"
proof (cases "contract (votingContract w)")
  case None
  then show ?thesis by (simp add: castVote_def vote_extends_refl)
next
  case (Some c)
  obtain r w1 where f: "castVote_send env c w p i = (r, w1)" by (cases "castVote_send env c w p i")
  with castVote_send_extends [of p i w env c] have x: "vote_extends p i w w1" by simp
  show ?thesis
  proof (cases r)
    case (Inl e)
    with Some f x show ?thesis by (simp add: castVote_def)
  next
    case (Inr t)
    have "vote_extends p i w1 (emit w1 (TxWait (hash t)))"
      by (rule vote_extends_emit) (simp add: vote_event_ok_def)
    with x have "vote_extends p i w (emit w1 (TxWait (hash t)))" by (rule vote_extends_trans)
    with Some f Inr show ?thesis by (simp add: castVote_def wait_status_snd)
  qed
qed

lemma encryptVote_initialized:
  "isInitialized w \<Longrightarrow> snd (encryptVote w 1) = emit w (BackendEncrypt32 1)"
  by (auto simp: isInitialized_def encryptVote_def encrypt32_def encrypt32_try_def Let_def
      split: sum.split backend_value.split)

lemma castVote_fhe_first:
  assumes "isInitialized w" "fst (encryptVote w 1) = Inr b" "encryptedVote b = Some ev"
  shows "snd (castVote_fhe c w p i)
     = w\<lparr>trace := trace w @ [BackendEncrypt32 1, CastVote p i (toHexString ev) (toHexString (voteProof b))]\<rparr>"
proof -
  have "encryptVote w 1 = (Inr b, emit w (BackendEncrypt32 1))"
    using assms(2) encryptVote_initialized [OF assms(1)] by (cases "encryptVote w 1") simp
  then show ?thesis
    using assms(3) by (simp add: castVote_fhe_def Let_def emit_def createExternalInput_def)
qed

lemma castVote_after_send:
  assumes "contract (votingContract w) = Some c"
  shows "\<exists>rest. trace (snd (castVote env w p i)) = trace (snd (castVote_send env c w p i)) @ rest"
proof -
  obtain r w1 where f: "castVote_send env c w p i = (r, w1)" by (cases "castVote_send env c w p i")
  show ?thesis
  proof (cases r)
    case (Inl e)
    with assms f show ?thesis by (simp add: castVote_def)
  next
    case (Inr t)
    with assms f show ?thesis by (simp add: castVote_def wait_status_snd emit_def)
  qed
qed

text \<open>
  Claim C6. Whatever \<^verbatim>\<open>castVote\<close> does for a proposal and an option, it only adds
  events to the trace, every call of the encryption backend among them has the value 1,
  and every vote submission among them carries the proposal and the option as its first
  two arguments, beside two hex strings. With encryption enabled and the adapter
  initialised, the backend is called with 1 and the first submission carries the hex
  strings of the two parts of \<open>encryptVote 1\<close>, which does not depend on the option.
  Otherwise no encryption takes place and the submission carries the hex strings of two
  blocks of random bytes.
\<close>

theorem castVote_encrypts_one:
  "(\<exists>evs. snd (castVote env w proposalId optionIndex) = w\<lparr>trace := trace w @ evs\<rparr>
        \<and> (\<forall>ev \<in> set evs. vote_event_ok proposalId optionIndex ev))
   \<and> (\<forall>c b ev. contract (votingContract w) = Some c
          \<and> isFHEVMEnabled (votingContract w) \<and> isInitialized w
          \<and> fst (encryptVote w 1) = Inr b \<and> encryptedVote b = Some ev
        \<longrightarrow> (\<exists>rest. trace (snd (castVote env w proposalId optionIndex))
               = trace w @ [BackendEncrypt32 1,
                   CastVote proposalId optionIndex (toHexString ev) (toHexString (voteProof b))]
                 @ rest))
   \<and> (\<forall>c. contract (votingContract w) = Some c
          \<and> \<not> (isFHEVMEnabled (votingContract w) \<and> isInitialized w)
        \<longrightarrow> (\<exists>rest. trace (snd (castVote env w proposalId optionIndex))
               = trace w @ [RandomBytes 32, RandomBytes 32,
                   CastVote proposalId optionIndex
                     (hexlify env (randomBytes env (trace w) 32))
                     (hexlify env (randomBytes env (trace w @ [RandomBytes 32]) 32))]
                 @ rest))"
proof (intro conjI allI impI)
  show "\<exists>evs. snd (castVote env w proposalId optionIndex) = w\<lparr>trace := trace w @ evs\<rparr>
        \<and> (\<forall>ev \<in> set evs. vote_event_ok proposalId optionIndex ev)"
    using castVote_extends [of proposalId optionIndex w env]
    by (simp add: vote_extends_def list_all_iff)
next
  fix c b ev
  assume h: "contract (votingContract w) = Some c
          \<and> isFHEVMEnabled (votingContract w) \<and> isInitialized w
          \<and> fst (encryptVote w 1) = Inr b \<and> encryptedVote b = Some ev"
  let ?evs = "[BackendEncrypt32 1,
               CastVote proposalId optionIndex (toHexString ev) (toHexString (voteProof b))]"
  obtain r w1 where f: "castVote_fhe c w proposalId optionIndex = (r, w1)"
    by (cases "castVote_fhe c w proposalId optionIndex")
  have w1: "w1 = w\<lparr>trace := trace w @ ?evs\<rparr>"
    using castVote_fhe_first [of w b ev c proposalId optionIndex] h f by simp
  have "\<exists>rest. trace (snd (castVote_send env c w proposalId optionIndex)) = trace w @ ?evs @ rest"
  proof (cases r)
    case (Inl e)
    then have "snd (castVote_send env c w proposalId optionIndex)
          = snd (castVote_simulated env c w1 proposalId optionIndex)"
      using h f by (simp add: castVote_send_def)
    then show ?thesis by (simp add: castVote_simulated_snd w1)
  next
    case (Inr t)
    then have "snd (castVote_send env c w proposalId optionIndex) = w1"
      using h f by (simp add: castVote_send_def)
    then show ?thesis by (simp add: w1)
  qed
  with castVote_after_send [of w c env proposalId optionIndex] h
  show "\<exists>rest. trace (snd (castVote env w proposalId optionIndex)) = trace w @ ?evs @ rest"
    by auto
next
  fix c
  assume h: "contract (votingContract w) = Some c
          \<and> \<not> (isFHEVMEnabled (votingContract w) \<and> isInitialized w)"
  then have "snd (castVote_send env c w proposalId optionIndex)
          = snd (castVote_simulated env c w proposalId optionIndex)"
    by (auto simp: castVote_send_def)
  with castVote_after_send [of w c env proposalId optionIndex] h
  show "\<exists>rest. trace (snd (castVote env w proposalId optionIndex))
               = trace w @ [RandomBytes 32, RandomBytes 32,
                   CastVote proposalId optionIndex
                     (hexlify env (randomBytes env (trace w) 32))
                     (hexlify env (randomBytes env (trace w @ [RandomBytes 32]) 32))]
                 @ rest"
    by (auto simp: castVote_simulated_snd)
qed

text \<open>
  The claim for the options 2 and 0 of proposal 3: the same ciphertext is sent with
  either option.
\<close>

theorem castVote_encrypts_one_witness:
  "(\<exists>rest. trace (snd (castVote ex_env (ready_world ex_instance ex_contract) 3 2))
       = [BackendEncrypt32 1, CastVote 3 2 (toHexString [1, 2, 3]) (toHexString [4, 5])] @ rest)
   \<and> (\<exists>rest. trace (snd (castVote ex_env (ready_world ex_instance ex_contract) 3 0))
       = [BackendEncrypt32 1, CastVote 3 0 (toHexString [1, 2, 3]) (toHexString [4, 5])] @ rest)"
proof -
  let ?w = "ready_world ex_instance ex_contract"
  let ?b = "\<lparr>encryptedVote = Some [1, 2, 3], voteProof = [4, 5]\<rparr> :: ballot"
  have h: "contract (votingContract ?w) = Some ex_contract
          \<and> isFHEVMEnabled (votingContract ?w) \<and> isInitialized ?w
          \<and> fst (encryptVote ?w 1) = Inr ?b \<and> encryptedVote ?b = Some [1, 2, 3]"
    by (simp add: ready_world_def isInitialized_def encryptVote_def encrypt32_def
        encrypt32_try_def ex_instance_def Let_def)
  have t: "trace ?w = []" by (simp add: ready_world_def)
  from castVote_encrypts_one [of ex_env ?w 3 2] h
  have "\<exists>rest. trace (snd (castVote ex_env ?w 3 2))
       = trace ?w @ [BackendEncrypt32 1, CastVote 3 2 (toHexString [1, 2, 3]) (toHexString (voteProof ?b))] @ rest"
    by blast
  moreover from castVote_encrypts_one [of ex_env ?w 3 0] h
  have "\<exists>rest. trace (snd (castVote ex_env ?w 3 0))
       = trace ?w @ [BackendEncrypt32 1, CastVote 3 0 (toHexString [1, 2, 3]) (toHexString (voteProof ?b))] @ rest"
    by blast
  ultimately show ?thesis by (simp add: t)
qed

text \<open>
  Claim C7 fails on the code in the encrypted mode. On a ledger whose first vote
  submission throws a transport error, \<^verbatim>\<open>castVote\<close> does not surface that error: the
  \<^verbatim>\<open>catch\<close> meant for a failed encryption also catches the failed submission, a second
  submission with random bytes is sent, and \<^verbatim>\<open>castVote\<close> returns \<^verbatim>\<open>true\<close> after two
  submissions.
\<close>

theorem castVote_resubmits_after_failure:
  "fst (castVote ex_env (ready_world ex_instance flaky_contract) 3 1) = Inr True
   \<and> length (filter isCastVote
        (trace (snd (castVote ex_env (ready_world ex_instance flaky_contract) 3 1)))) = 2"
  by (simp add: castVote_def castVote_send_def castVote_fhe_def castVote_simulated_def
      wait_status_def encryptVote_def encrypt32_def encrypt32_try_def isInitialized_def
      ready_world_def ex_instance_def flaky_contract_def ex_contract_def ex_env_def ex_tx_def
      emit_def Let_def)

lemma wait_status_fst:
  "fst (wait_status t w) = (case wait t of Inl e \<Rightarrow> Inl e | Inr rc \<Rightarrow> Inr (status rc = 1))"
  by (simp add: wait_status_def split: sum.split)

text \<open>
  Once a submission has returned a transaction, \<^verbatim>\<open>castVote\<close> returns \<^verbatim>\<open>true\<close> exactly
  for a receipt of status 1, and an error of the wait is the error of \<^verbatim>\<open>castVote\<close>.
\<close>

lemma castVote_status:
  assumes "contract (votingContract w) = Some c"
    and "fst (castVote_send env c w p i) = Inr t"
  shows "fst (castVote env w p i)
      = (case wait t of Inl e \<Rightarrow> Inl e | Inr rc \<Rightarrow> Inr (status rc = 1))"
  using assms
  by (cases "castVote_send env c w p i") (simp add: castVote_def wait_status_fst)

text \<open>
  Without encryption, the path beside the one of the defect, a submission that throws
  is thrown on to the caller after that one submission.
\<close>

lemma castVote_simulated_mode_surfaces:
  assumes "contract (votingContract w) = Some c"
    and "\<not> (isFHEVMEnabled (votingContract w) \<and> isInitialized w)"
    and "fst (castVote_simulated env c w p i) = Inl e"
  shows "castVote env w p i = (Inl e, snd (castVote_simulated env c w p i))"
proof -
  have "castVote_send env c w p i = castVote_simulated env c w p i"
    using assms(2) by (auto simp: castVote_send_def)
  with assms(1,3) show ?thesis
    by (cases "castVote_simulated env c w p i") (simp add: castVote_def)
qed

section \<open>Writing without a connection\<close>

text \<open>
  Claim C10. Without a contract handle each of the five write methods returns
  \<^verbatim>\<open>false\<close>, raises nothing and leaves the world, and so the trace of remote calls, as
  it was. With a contract, a transaction confirmed with a status other than 1 gives the
  same value \<^verbatim>\<open>false\<close>, so the caller cannot tell the two apart.
\<close>

theorem no_contract_returns_false:
  "(contract (votingContract w) = None \<longrightarrow>
      castVote env w proposalId optionIndex = (Inr False, w)
      \<and> createProposal w ttl descr opts duration = (Inr False, w)
      \<and> revealResults w proposalId = (Inr False, w)
      \<and> authorizeVoter w voterAddress = (Inr False, w)
      \<and> authorizeVoters w voterAddresses = (Inr False, w))
   \<and> (\<forall>c t rc. contract (votingContract w) = Some c \<and> wait t = Inr rc \<and> status rc \<noteq> 1 \<longrightarrow>
        (fst (castVote_send env c w proposalId optionIndex) = Inr t
           \<longrightarrow> fst (castVote env w proposalId optionIndex) = Inr False)
        \<and> (c_createProposal c (trace w) ttl descr opts duration = Inr t
           \<longrightarrow> fst (createProposal w ttl descr opts duration) = Inr False)
        \<and> (c_revealResults c (trace w) proposalId = Inr t
           \<longrightarrow> fst (revealResults w proposalId) = Inr False)
        \<and> (c_authorizeVoter c (trace w) voterAddress = Inr t
           \<longrightarrow> fst (authorizeVoter w voterAddress) = Inr False)
        \<and> (c_authorizeVoters c (trace w) voterAddresses = Inr t
           \<longrightarrow> fst (authorizeVoters w voterAddresses) = Inr False))"
proof (intro conjI allI impI)
  fix c and t :: tx and rc :: receipt
  assume h: "contract (votingContract w) = Some c \<and> wait t = Inr rc \<and> status rc \<noteq> 1"
  show "fst (castVote env w proposalId optionIndex) = Inr False"
    if "fst (castVote_send env c w proposalId optionIndex) = Inr t"
    using castVote_status [of w c env proposalId optionIndex t] h that by simp
  show "fst (createProposal w ttl descr opts duration) = Inr False"
    if "c_createProposal c (trace w) ttl descr opts duration = Inr t"
    using h that by (simp add: createProposal_def wait_status_fst)
  show "fst (revealResults w proposalId) = Inr False"
    if "c_revealResults c (trace w) proposalId = Inr t"
    using h that by (simp add: revealResults_def wait_status_fst)
  show "fst (authorizeVoter w voterAddress) = Inr False"
    if "c_authorizeVoter c (trace w) voterAddress = Inr t"
    using h that by (simp add: authorizeVoter_def wait_status_fst)
  show "fst (authorizeVoters w voterAddresses) = Inr False"
    if "c_authorizeVoters c (trace w) voterAddresses = Inr t"
    using h that by (simp add: authorizeVoters_def wait_status_fst)
qed (simp_all add: castVote_def createProposal_def revealResults_def authorizeVoter_def
      authorizeVoters_def)

text \<open>
  The claim in the world before any connection, and on a ledger that confirms with
  status 0.
\<close>

theorem no_contract_returns_false_witness:
  "castVote ex_env world0 3 1 = (Inr False, world0)
   \<and> createProposal world0 ''Budget'' ''Approve the budget'' [''yes'', ''no''] 86400 = (Inr False, world0)
   \<and> revealResults world0 3 = (Inr False, world0)
   \<and> authorizeVoter world0 ''0xvoter'' = (Inr False, world0)
   \<and> authorizeVoters world0 [''0xvoter'', ''0xother''] = (Inr False, world0)
   \<and> fst (revealResults (ready_world ex_instance reverting_contract) 3) = Inr False"
proof -
  let ?w = "ready_world ex_instance reverting_contract"
  have h: "contract (votingContract world0) = None" by (simp add: world0_def)
  have r: "contract (votingContract ?w) = Some reverting_contract
        \<and> wait reverted_tx = Inr \<lparr>status = 0\<rparr> \<and> status \<lparr>status = 0\<rparr> \<noteq> 1"
    "c_revealResults reverting_contract (trace ?w) 3 = Inr reverted_tx"
    by (simp_all add: ready_world_def reverting_contract_def reverted_tx_def)
  from no_contract_returns_false [of world0 ex_env 3 1 "''Budget''" "''Approve the budget''"
      "[''yes'', ''no'']" 86400 "''0xvoter''" "[''0xvoter'', ''0xother'']"] h
  have a: "castVote ex_env world0 3 1 = (Inr False, world0)
   \<and> createProposal world0 ''Budget'' ''Approve the budget'' [''yes'', ''no''] 86400 = (Inr False, world0)
   \<and> revealResults world0 3 = (Inr False, world0)
   \<and> authorizeVoter world0 ''0xvoter'' = (Inr False, world0)
   \<and> authorizeVoters world0 [''0xvoter'', ''0xother''] = (Inr False, world0)"
    by blast
  from no_contract_returns_false [of ?w ex_env 3 1 "''Budget''" "''Approve the budget''"
      "[''yes'', ''no'']" 86400 "''0xvoter''" "[''0xvoter'', ''0xother'']"] r
  have "fst (revealResults ?w 3) = Inr False" by blast
  with a show ?thesis by simp
qed

end
